theory Spec2Isabelle
  imports Complex_Main "HOL-Library.Sublist"
begin

section \<open>Python strings\<close>

text \<open>
  A Python \<open>str\<close> is a sequence of code points. The model is \<open>string\<close>: a list of
  \<open>char\<close>, each \<open>char\<close> read as the code point of the same number, so that the texts
  covered are those over U+0000 .. U+00FF. On that range the predicates below are the
  ones of CPython 3.11 (\<open>str.isdigit\<close>, \<open>str.isspace\<close>, \<open>str.lower\<close>, and the
  word characters of \<open>re\<close>).
\<close>

definition code :: "char \<Rightarrow> nat" where
  "code c = of_char c"

definition isdigit :: "char \<Rightarrow> bool" where
  \<comment> \<open>\<open>str.isdigit\<close>: the decimal digits and the superscripts two, three and one.\<close>
  "isdigit c = ((48 \<le> code c \<and> code c \<le> 57) \<or> code c = 178 \<or> code c = 179 \<or> code c = 185)"

definition isspace :: "char \<Rightarrow> bool" where
  \<comment> \<open>\<open>str.isspace\<close>, which is also what \<open>str.strip()\<close> removes.\<close>
  "isspace c = ((9 \<le> code c \<and> code c \<le> 13) \<or> (28 \<le> code c \<and> code c \<le> 32)
                 \<or> code c = 133 \<or> code c = 160)"

definition lower_char :: "char \<Rightarrow> char" where
  \<comment> \<open>\<open>str.lower\<close> on one character: A-Z, and U+00C0 .. U+00DE without the
      multiplication sign U+00D7.\<close>
  "lower_char c =
     (if (65 \<le> code c \<and> code c \<le> 90) \<or> (192 \<le> code c \<and> code c \<le> 222 \<and> code c \<noteq> 215)
      then char_of (code c + 32) else c)"

definition lower :: "string \<Rightarrow> string" where
  "lower s = map lower_char s"

definition strip :: "string \<Rightarrow> string" where
  \<comment> \<open>\<open>s.strip()\<close>: white space removed at both ends.\<close>
  "strip s = rev (dropWhile isspace (rev (dropWhile isspace s)))"

definition startswith :: "string \<Rightarrow> string \<Rightarrow> bool" where
  \<comment> \<open>\<open>s.startswith(p)\<close>\<close>
  "startswith s p = (take (length p) s = p)"

fun contains :: "string \<Rightarrow> string \<Rightarrow> bool" where
  \<comment> \<open>\<open>sub in s\<close>\<close>
  "contains [] sub = (sub = [])"
| "contains (c # cs) sub = (startswith (c # cs) sub \<or> contains cs sub)"

section \<open>Phone normalizer\<close>

text \<open>
  \<open>WhatsSMSService.normalize_to_e164\<close>. An empty argument is falsy and is returned as
  it is; otherwise the four cases are decided on the digits of the argument.
\<close>

definition normalize_to_e164 :: "string \<Rightarrow> string" where
  "normalize_to_e164 phone_number =
     (if phone_number = [] then phone_number
      else
        let digits = filter isdigit phone_number in
        if startswith digits ''92'' \<and> length digits \<ge> 12 then ''+'' @ digits
        else if startswith digits ''0'' \<and> length digits = 11 then ''+92'' @ drop 1 digits
        else if length digits = 10 then ''+92'' @ digits
        else ''+'' @ digits)"

text \<open>
  The four rules as the specification words them, on the digit-only projection of the
  input, with no case for the empty input.
\<close>

definition e164_rules :: "string \<Rightarrow> string" where
  "e164_rules raw =
     (let digits = filter isdigit raw in
      if startswith digits ''92'' \<and> length digits \<ge> 12 then ''+'' @ digits
      else if startswith digits ''0'' \<and> length digits = 11 then ''+92'' @ drop 1 digits
      else if length digits = 10 then ''+92'' @ digits
      else ''+'' @ digits)"

section \<open>Message classifier\<close>

text \<open>
  \<open>re\<close> takes as word characters the alphanumeric characters (\<open>str.isalnum\<close>) and the
  underscore.
\<close>

definition wordchar :: "char \<Rightarrow> bool" where
  "wordchar c =
     ((48 \<le> code c \<and> code c \<le> 57) \<or> (65 \<le> code c \<and> code c \<le> 90) \<or> code c = 95
      \<or> (97 \<le> code c \<and> code c \<le> 122) \<or> code c = 170 \<or> code c = 178 \<or> code c = 179
      \<or> code c = 181 \<or> code c = 185 \<or> code c = 186 \<or> (188 \<le> code c \<and> code c \<le> 190)
      \<or> (192 \<le> code c \<and> code c \<le> 214) \<or> (216 \<le> code c \<and> code c \<le> 246)
      \<or> (248 \<le> code c \<and> code c \<le> 255))"

text \<open>
  Every pattern of the classifier has the form \<open>\b(a1|a2|...|an)\b\<close>, the \<open>ai\<close> plain
  texts. A pattern is modelled as the list of its alternatives. \<open>\b\<close> holds at position
  \<open>i\<close> when exactly one of the characters before and at \<open>i\<close> is a word character, the
  ends of the text counting as no word character. With \<open>re.IGNORECASE\<close> a character
  of the text matches a character of the pattern when their lower-case forms agree.
\<close>

type_synonym pattern = "string list"

definition wordchar_at :: "string \<Rightarrow> nat \<Rightarrow> bool" where
  "wordchar_at s i = (i < length s \<and> wordchar (s ! i))"

definition boundary_at :: "string \<Rightarrow> nat \<Rightarrow> bool" where
  "boundary_at s i = ((0 < i \<and> wordchar_at s (i - 1)) \<noteq> wordchar_at s i)"

definition matches_at :: "string \<Rightarrow> nat \<Rightarrow> string \<Rightarrow> bool" where
  "matches_at s i alt =
     (boundary_at s i
      \<and> lower (take (length alt) (drop i s)) = lower alt
      \<and> boundary_at s (i + length alt))"

definition re_search :: "pattern \<Rightarrow> string \<Rightarrow> bool" where
  \<comment> \<open>\<open>re.search(pattern, message, re.IGNORECASE)\<close> is not \<open>None\<close>\<close>
  "re_search alts s = list_ex (\<lambda>i. list_ex (matches_at s i) alts) [0 ..< Suc (length s)]"

definition matches_patterns :: "string \<Rightarrow> pattern list \<Rightarrow> bool" where
  \<comment> \<open>\<open>MessageClassifier._matches_patterns\<close>\<close>
  "matches_patterns message patterns = list_ex (\<lambda>pattern. re_search pattern message) patterns"

definition pricing_patterns :: "pattern list" where
  "pricing_patterns =
     [[''price'', ''cost'', ''budget'', ''expensive'', ''cheap'', ''affordable''],
      [''how much'', ''pricing'', ''quote'', ''estimate'', ''fee'', ''charge''],
      [''payment'', ''money'', ''dollar'', ''rupee'', ''costs''],
      [''rate'', ''rates'', ''tariff'', ''tariffs'']]"

definition support_patterns :: "pattern list" where
  "support_patterns =
     [[''help'', ''support'', ''issue'', ''problem'', ''error'', ''bug'', ''fix''],
      [''not working'', ''broken'', ''down'', ''trouble'', ''difficulty''],
      [''how to'', ''how do'', ''tutorial'', ''guide'', ''instructions''],
      [''complaint'', ''complaints'', ''dissatisfied'', ''unhappy'']]"

definition general_patterns :: "pattern list" where
  "general_patterns =
     [[''thank'', ''thanks'', ''appreciate'', ''grateful''],
      [''information'', ''info'', ''details'', ''more''],
      [''contact'', ''reach'', ''get in touch'']]"

definition greeting_words :: "pattern list" where
  \<comment> \<open>the one pattern that \<open>classify_message\<close> passes for greetings\<close>
  "greeting_words =
     [[''hello'', ''hi'', ''hey'', ''good morning'', ''good afternoon'', ''good evening'']]"

text \<open>
  Characters beyond U+00FF occur only in literals of outgoing texts, which the program
  never inspects. Each is written as the bytes of its UTF-8 form.
\<close>

definition emoji_wave :: string where
  "emoji_wave = [CHR 0xF0, CHR 0x9F, CHR 0x91, CHR 0x8B]"

definition emoji_alarm :: string where
  "emoji_alarm = [CHR 0xF0, CHR 0x9F, CHR 0x9A, CHR 0xA8]"

definition emoji_bust :: string where
  "emoji_bust = [CHR 0xF0, CHR 0x9F, CHR 0x91, CHR 0xA4]"

definition emoji_phone :: string where
  "emoji_phone = [CHR 0xF0, CHR 0x9F, CHR 0x93, CHR 0xB1]"

definition emoji_briefcase :: string where
  "emoji_briefcase = [CHR 0xF0, CHR 0x9F, CHR 0x92, CHR 0xBC]"

definition emoji_robot :: string where
  "emoji_robot = [CHR 0xF0, CHR 0x9F, CHR 0xA4, CHR 0x96]"

definition emoji_moneybag :: string where
  "emoji_moneybag = [CHR 0xF0, CHR 0x9F, CHR 0x92, CHR 0xB0]"

definition emoji_receiver :: string where
  "emoji_receiver = [CHR 0xF0, CHR 0x9F, CHR 0x93, CHR 0x9E]"

definition emoji_check :: string where
  "emoji_check = [CHR 0xE2, CHR 0x9C, CHR 0x85]"

definition emoji_warning :: string where
  "emoji_warning = [CHR 0xE2, CHR 0x9A, CHR 0xA0, CHR 0xEF, CHR 0xB8, CHR 0x8F]"

text \<open>
  The dictionary that \<open>classify_message\<close> returns. The confidences are the decimal
  literals of the source, compared only with the literal \<open>0.8\<close>; as reals they are
  ordered as the floating-point numbers are.
\<close>

record classification =
  ctype :: string
  response :: string
  confidence :: real

definition classify_message :: "string \<Rightarrow> classification" where
  "classify_message message =
     (let message_lower = strip (lower message) in
      if matches_patterns message_lower pricing_patterns then
        \<lparr>ctype = ''pricing'',
         response = ''Our pricing starts from $99. Would you like the full details?'',
         confidence = 0.9\<rparr>
      else if matches_patterns message_lower support_patterns then
        \<lparr>ctype = ''support'',
         response = ''I'm here to help. Could you share more details about the issue?'',
         confidence = 0.8\<rparr>
      else if matches_patterns message_lower general_patterns then
        \<lparr>ctype = ''general'',
         response = ''Thanks for your message! Our team will respond shortly.'',
         confidence = 0.7\<rparr>
      else if matches_patterns message_lower greeting_words then
        \<lparr>ctype = ''greeting'',
         response = ''Hello '' @ emoji_wave @ '' How can I help you today?'',
         confidence = 0.9\<rparr>
      else
        \<lparr>ctype = ''other'',
         response = ''Thanks for your message! Our team will respond shortly.'',
         confidence = 0.5\<rparr>)"

section \<open>Keyword checks\<close>

definition completion_keywords :: "string list" where
  "completion_keywords =
     [''finalize'', ''complete'', ''done'', ''finished'', ''ready'', ''proceed'',
      ''start project'', ''begin'', ''go ahead'', ''confirm'', ''approve'',
      ''that's all'', ''that's it'', ''nothing else'', ''perfect'', ''sounds good'']"

definition check_for_completion_keywords :: "string \<Rightarrow> bool" where
  "check_for_completion_keywords message =
     (let message_lower = lower message in
      list_ex (\<lambda>keyword. contains message_lower keyword) completion_keywords)"

definition team_contact_keywords :: "string list" where
  \<comment> \<open>the list written in the fourth test of \<open>handle_incoming_message\<close>\<close>
  "team_contact_keywords =
     [''team reach out'', ''contact me'', ''call me'', ''reach out'', ''team contact'',
      ''speak with team'', ''talk to team'', ''team call'', ''contact team'', ''team reach'']"

definition wants_team_contact :: "string \<Rightarrow> bool" where
  "wants_team_contact message_content =
     list_ex (\<lambda>keyword. contains (lower message_content) keyword) team_contact_keywords"

section \<open>Conversation records\<close>

text \<open>
  \<open>ConversationMessage\<close> and \<open>WhatsAppConversation\<close>. The role of a message is one of
  the two texts \<open>client\<close> and \<open>assistant\<close>. The time stamps of messages and records
  are left out. \<open>doc_id\<close> is the field \<open>id\<close> (alias \<open>_id\<close>).
\<close>

datatype role = Client | Assistant

record conversation_message =
  role :: role
  message :: string

record whatsapp_conversation =
  doc_id :: "string option"
  client_name :: "string option"
  phone_number :: string
  conversation :: "conversation_message list"
  status :: string
  messages_used :: int

definition truthy :: "string option \<Rightarrow> bool" where
  \<comment> \<open>the truth value of an optional text: \<open>None\<close> and the empty text are false\<close>
  "truthy x = (case x of None \<Rightarrow> False | Some s \<Rightarrow> s \<noteq> [])"

definition str_opt :: "string option \<Rightarrow> string" where
  \<comment> \<open>an optional text inside an f-string\<close>
  "str_opt x = (case x of None \<Rightarrow> ''None'' | Some s \<Rightarrow> s)"

fun str_nat :: "nat \<Rightarrow> string" where
  "str_nat n =
     (if n < 10 then [char_of (48 + n)] else str_nat (n div 10) @ [char_of (48 + n mod 10)])"

definition str_int :: "int \<Rightarrow> string" where
  \<comment> \<open>an integer inside an f-string\<close>
  "str_int i = (if i < 0 then ''-'' @ str_nat (nat (- i)) else str_nat (nat i))"

definition role_name :: "role \<Rightarrow> string" where
  "role_name r = (case r of Client \<Rightarrow> ''client'' | Assistant \<Rightarrow> ''assistant'')"

definition role_title :: "role \<Rightarrow> string" where
  \<comment> \<open>\<open>msg.role.title()\<close>\<close>
  "role_title r = (case r of Client \<Rightarrow> ''Client'' | Assistant \<Rightarrow> ''Assistant'')"

definition format_message :: "conversation_message \<Rightarrow> string" where
  \<comment> \<open>the line that one pass of the loop of \<open>format_conversation_summary\<close> adds\<close>
  "format_message msg =
     (let role_emoji = (if role msg = Client then emoji_bust else emoji_robot) in
      role_emoji @ '' '' @ role_title (role msg) @ '': '' @ message msg @ ''\<newline>'')"

definition format_conversation_summary :: "whatsapp_conversation \<Rightarrow> string" where
  "format_conversation_summary conv =
     ''Client: '' @ str_opt (client_name conv) @ ''\<newline>''
     @ ''Phone: '' @ phone_number conv @ ''\<newline>''
     @ ''Messages: '' @ str_int (messages_used conv) @ ''\<newline>''
     @ ''Status: '' @ status conv @ ''\<newline>\<newline>''
     @ ''Conversation:\<newline>''
     @ concat (map format_message (conversation conv))"

section \<open>Store, gateway and completion client\<close>

text \<open>
  The collaborators of one call of the engine. \<open>find_ok\<close>, \<open>insert_ok\<close> and
  \<open>replace_ok\<close> say whether the data store performs the lookup, the insertion and the
  replacement or raises; \<open>alert_delivered\<close> and \<open>reply_delivered\<close> say whether the
  gateway accepts the team alert and the reply; \<open>llama\<close> is the completion client, which
  never raises. The state is the collection of conversation documents, keyed by
  \<open>_id\<close>, and the requests made to the gateway, in order: recipient, text, accepted.
\<close>

datatype error = DbError

record env =
  find_ok :: bool
  insert_ok :: bool
  replace_ok :: bool
  alert_delivered :: bool
  reply_delivered :: bool
  llama :: "(role \<times> string) list \<Rightarrow> string \<Rightarrow> string"
  team_number :: string

record state =
  store :: "string \<rightharpoonup> whatsapp_conversation"
  outbox :: "(string \<times> string \<times> bool) list"

definition send_whatsapp_message :: "bool \<Rightarrow> state \<Rightarrow> string \<Rightarrow> string \<Rightarrow> state \<times> bool" where
  \<comment> \<open>the first argument is the outcome of the request; every failure gives \<open>False\<close>\<close>
  "send_whatsapp_message accepted st client_phone body =
     (let recipient = normalize_to_e164 client_phone in
      (st\<lparr>outbox := outbox st @ [(recipient, body, accepted)]\<rparr>, accepted))"

definition get_or_create_conversation ::
  "env \<Rightarrow> state \<Rightarrow> string \<Rightarrow> state \<times> (error + whatsapp_conversation)" where
  "get_or_create_conversation e st phone =
     (if \<not> find_ok e then (st, Inl DbError)
      else
        let normalized_phone = normalize_to_e164 phone in
        case store st normalized_phone of
          Some conversation_doc \<Rightarrow>
            (st, Inr (conversation_doc\<lparr>doc_id := Some normalized_phone\<rparr>))
        | None \<Rightarrow>
            let new_conversation =
                  \<lparr>doc_id = None, client_name = None, phone_number = normalized_phone,
                   conversation = [], status = ''pending'', messages_used = 0\<rparr>
            in if insert_ok e
               then (st\<lparr>store := (store st)
                         (normalized_phone \<mapsto> new_conversation\<lparr>doc_id := Some normalized_phone\<rparr>)\<rparr>,
                     Inr new_conversation)
               else (st, Inl DbError))"

definition save_conversation ::
  "env \<Rightarrow> state \<Rightarrow> whatsapp_conversation \<Rightarrow> state \<times> (error + unit)" where
  "save_conversation e st conv =
     (if replace_ok e
      then (st\<lparr>store := (store st)
                (phone_number conv \<mapsto> conv\<lparr>doc_id := Some (phone_number conv)\<rparr>)\<rparr>,
            Inr ())
      else (st, Inl DbError))"

definition team_message_text ::
  "string \<Rightarrow> string option \<Rightarrow> string option \<Rightarrow> string option \<Rightarrow> string" where
  \<comment> \<open>the text that \<open>notify_team\<close> builds\<close>
  "team_message_text body phone client project_details =
     emoji_alarm @ '' TEAM ALERT '' @ emoji_alarm @ ''\<newline>\<newline>'' @ body
     @ (if truthy client then ''\<newline>'' @ emoji_bust @ '' Client Name: '' @ str_opt client else [])
     @ (if truthy phone then ''\<newline>'' @ emoji_phone @ '' Client Phone: '' @ str_opt phone else [])
     @ (if truthy project_details
        then ''\<newline>'' @ emoji_briefcase @ '' Project Details: '' @ str_opt project_details else [])
     @ ''\<newline>\<newline>'' @ emoji_robot
     @ '' Bot Response: Please reach out to this client for further discussion about their project requirements.''"

definition notify_team ::
  "env \<Rightarrow> state \<Rightarrow> string \<Rightarrow> string option \<Rightarrow> string option \<Rightarrow> string option \<Rightarrow> state \<times> bool" where
  "notify_team e st body phone client project_details =
     send_whatsapp_message (alert_delivered e) st (team_number e)
       (team_message_text body phone client project_details)"

section \<open>Workflow engine\<close>

text \<open>
  The arms of the \<open>if\<close>/\<open>elif\<close> chain of \<open>handle_incoming_message\<close>, in the order of
  the source.
\<close>

datatype branch =
  NameRequest | NameCapture | Classified | TeamContact | Completion | LimitReached | Fallback

text \<open>
  \<open>determine_response\<close> is the chain itself (``Determine response based on workflow''),
  run on the conversation that already holds the inbound message and the incremented
  counter. It gives the arm taken, the conversation as the arm leaves it, the reply and
  the state after the team alert of the arm, if it sends one.
\<close>

definition determine_response ::
  "env \<Rightarrow> state \<Rightarrow> whatsapp_conversation \<Rightarrow> string \<Rightarrow> string
     \<Rightarrow> branch \<times> whatsapp_conversation \<times> string \<times> state" where
  "determine_response e st conv phone message_content =
     (let classification = classify_message message_content in
      if \<not> truthy (client_name conv) \<and> messages_used conv = 1 then
        (NameRequest, conv\<lparr>client_name := Some ''Unknown''\<rparr>,
         ''Hello! What is your name, sir?'', st)
      else if \<not> truthy (client_name conv) \<or> client_name conv = Some ''Unknown'' then
        (NameCapture, conv\<lparr>client_name := Some (strip message_content)\<rparr>,
         ''Nice to meet you, '' @ strip message_content
           @ ''! I'm here to help you with your project requirements. What type of app or website are you looking to build?'',
         st)
      else if confidence classification \<ge> 0.8 then
        (Classified, conv, response classification,
         if ctype classification = ''pricing''
         then fst (notify_team e st
                     (emoji_moneybag @ '' PRICING INQUIRY\<newline>\<newline>Message: '' @ message_content)
                     (Some phone) (client_name conv)
                     (Some ''Client is asking about pricing for our services''))
         else st)
      else if wants_team_contact message_content then
        (TeamContact, conv,
         ''Perfect! I'll have our team reach out to you shortly to discuss your project requirements in detail.'',
         fst (notify_team e st
                (emoji_receiver @ '' CLIENT WANTS TEAM CONTACT\<newline>\<newline>Message: '' @ message_content)
                (Some phone) (client_name conv)
                (Some ''Client specifically requested team to reach out for project discussion'')))
      else if check_for_completion_keywords message_content then
        (let finalized = conv\<lparr>status := ''finalized''\<rparr>;
             conversation_summary = format_conversation_summary finalized
         in (Completion, finalized,
             ''Great! Your project description has been saved. Our team will reach out to you soon.'',
             fst (notify_team e st
                    (emoji_check @ '' PROJECT FINALIZED\<newline>\<newline>'' @ conversation_summary)
                    (Some phone) (client_name finalized)
                    (Some ''Client has finalized their project requirements''))))
      else if messages_used conv \<ge> 20 then
        (LimitReached, conv,
         ''You've reached the message limit. Our team will contact you shortly.'',
         fst (notify_team e st
                (emoji_warning @ '' MESSAGE LIMIT REACHED\<newline>\<newline>Messages used: ''
                   @ str_int (messages_used conv))
                (Some phone) (client_name conv)
                (Some ''Client has reached the message limit and needs team follow-up'')))
      else
        (Fallback, conv,
         llama e (map (\<lambda>msg. (role msg, message msg)) (butlast (conversation conv)))
           message_content,
         st))"

definition handle_incoming_message :: "env \<Rightarrow> state \<Rightarrow> string \<Rightarrow> string \<Rightarrow> state \<times> bool" where
  "handle_incoming_message e st phone message_content =
     (case get_or_create_conversation e st phone of
        (st1, Inl err) \<Rightarrow> (st1, False)
      | (st1, Inr fetched) \<Rightarrow>
          (let client_message = \<lparr>role = Client, message = message_content\<rparr>;
               conv = fetched\<lparr>conversation := conversation fetched @ [client_message],
                              messages_used := messages_used fetched + 1\<rparr>;
               (taken, conv2, response_message, st2) =
                  determine_response e st1 conv phone message_content;
               assistant_message = \<lparr>role = Assistant, message = response_message\<rparr>;
               conv3 = conv2\<lparr>conversation := conversation conv2 @ [assistant_message]\<rparr>
           in (case save_conversation e st2 conv3 of
                 (st3, Inl err) \<Rightarrow> (st3, False)
               | (st3, Inr u) \<Rightarrow>
                   send_whatsapp_message (reply_delivered e) st3 phone response_message)))"

definition initial :: state where
  "initial = \<lparr>store = Map.empty, outbox = []\<rparr>"

text \<open>The states that the engine reaches from the empty collection.\<close>

inductive reachable :: "state \<Rightarrow> bool" where
  start: "reachable initial"
| step: "reachable st \<Longrightarrow> reachable (fst (handle_incoming_message e st phone message_content))"

text \<open>
  The order of the tests as the specification words it, an unset name being the
  absent one.
\<close>

definition ladder_as_stated :: "whatsapp_conversation \<Rightarrow> string \<Rightarrow> branch" where
  "ladder_as_stated conv message_content =
     (if client_name conv = None \<and> messages_used conv = 1 then NameRequest
      else if client_name conv = None \<or> client_name conv = Some ''Unknown'' then NameCapture
      else if confidence (classify_message message_content) \<ge> 0.8 then Classified
      else if wants_team_contact message_content then TeamContact
      else if check_for_completion_keywords message_content then Completion
      else if messages_used conv \<ge> 20 then LimitReached
      else Fallback)"

section \<open>The search in one pass\<close>

text \<open>
  The same search, run once over the text: each character comes with its lower-case form
  and with whether it is a word character, and the alternatives are tried only where a
  word begins or ends. It is proved equal to \<open>re_search\<close> below and serves to evaluate
  the classifier on the texts of the examples.
\<close>

fun alt_here :: "(char \<times> bool) list \<Rightarrow> bool \<Rightarrow> string \<Rightarrow> bool" where
  "alt_here rest pw [] = (pw \<noteq> (case rest of [] \<Rightarrow> False | (c, w) # _ \<Rightarrow> w))"
| "alt_here [] pw (a # as) = False"
| "alt_here ((c, w) # rest) pw (a # as) = (if c = a then alt_here rest w as else False)"

fun scan :: "bool \<Rightarrow> (char \<times> bool) list \<Rightarrow> string list \<Rightarrow> bool" where
  "scan pw [] alts = (if pw then list_ex (alt_here [] pw) alts else False)"
| "scan pw ((c, w) # rest) alts =
     (if pw \<noteq> w
      then (if list_ex (alt_here ((c, w) # rest) pw) alts then True else scan w rest alts)
      else scan w rest alts)"

definition marked :: "string \<Rightarrow> (char \<times> bool) list" where
  "marked s = map (\<lambda>c. (lower_char c, wordchar c)) s"

definition before_word :: "string \<Rightarrow> bool" where
  "before_word pre = (pre \<noteq> [] \<and> wordchar (last pre))"

section \<open>Example data\<close>

text \<open>
  Collaborators that all succeed, a client who has given a name and has exchanged \<open>n\<close>
  further messages with the completion client, the collection that holds one record,
  and the record of a client whose second message was blank.
\<close>

definition all_up :: env where
  "all_up =
     \<lparr>find_ok = True, insert_ok = True, replace_ok = True,
      alert_delivered = True, reply_delivered = True,
      llama = (\<lambda>history message_content. ''Could you tell me more about your project?''),
      team_number = ''923009998877''\<rparr>"

definition name_exchange :: "conversation_message list" where
  "name_exchange =
     [\<lparr>role = Client, message = ''hi''\<rparr>,
      \<lparr>role = Assistant, message = ''Hello! What is your name, sir?''\<rparr>,
      \<lparr>role = Client, message = ''John Smith''\<rparr>,
      \<lparr>role = Assistant,
       message = ''Nice to meet you, John Smith! I'm here to help you with your project requirements. What type of app or website are you looking to build?''\<rparr>]"

definition chat_round :: "conversation_message list" where
  "chat_round =
     [\<lparr>role = Client, message = ''we need a booking app''\<rparr>,
      \<lparr>role = Assistant, message = ''Could you tell me more about your project?''\<rparr>]"

definition john_smith :: "nat \<Rightarrow> whatsapp_conversation" where
  "john_smith n =
     \<lparr>doc_id = Some ''+923001112233'', client_name = Some ''John Smith'',
      phone_number = ''+923001112233'',
      conversation = name_exchange @ concat (replicate n chat_round),
      status = ''pending'', messages_used = 2 + int n\<rparr>"

definition holding :: "whatsapp_conversation \<Rightarrow> state" where
  "holding d = \<lparr>store = [phone_number d \<mapsto> d], outbox = []\<rparr>"

definition blank_name :: whatsapp_conversation where
  "blank_name =
     \<lparr>doc_id = Some ''+923001112233'', client_name = Some '''',
      phone_number = ''+923001112233'',
      conversation =
        [\<lparr>role = Client, message = ''hi''\<rparr>,
         \<lparr>role = Assistant, message = ''Hello! What is your name, sir?''\<rparr>,
         \<lparr>role = Client, message = '' ''\<rparr>,
         \<lparr>role = Assistant,
          message = ''Nice to meet you, ! I'm here to help you with your project requirements. What type of app or website are you looking to build?''\<rparr>],
      status = ''pending'', messages_used = 2\<rparr>"

section \<open>Properties of the phone normalizer\<close>

lemma isdigit_plus [simp]: "\<not> isdigit CHR ''+''"
  by (simp add: isdigit_def code_def)

lemma isdigit_nine [simp]: "isdigit CHR ''9''"
  by (simp add: isdigit_def code_def)

lemma isdigit_two [simp]: "isdigit CHR ''2''"
  by (simp add: isdigit_def code_def)

lemma filter_isdigit_digits [simp]:
  "filter isdigit (filter isdigit s) = filter isdigit s"
  by simp

lemma all_digits_drop: "filter isdigit (drop n (filter isdigit s)) = drop n (filter isdigit s)"
proof -
  have "isdigit c" if "c \<in> set (drop n (filter isdigit s))" for c
    using in_set_dropD [OF that] by simp
  then show ?thesis
    unfolding filter_id_conv by blast
qed

lemma normalize_fixed_point:
  "normalize_to_e164 (normalize_to_e164 s) = normalize_to_e164 s"
proof (cases "s = []")
  case True
  then show ?thesis by (simp add: normalize_to_e164_def)
next
  case False
  define d where "d = filter isdigit s"
  have dd: "filter isdigit d = d" by (simp add: d_def)
  have dr: "filter isdigit (drop 1 d) = drop 1 d"
    unfolding d_def by (rule all_digits_drop)
  consider (a) "startswith d ''92'' \<and> length d \<ge> 12"
    | (b) "\<not> (startswith d ''92'' \<and> length d \<ge> 12)" "startswith d ''0'' \<and> length d = 11"
    | (c) "\<not> (startswith d ''92'' \<and> length d \<ge> 12)" "\<not> (startswith d ''0'' \<and> length d = 11)"
          "length d = 10"
    | (e) "\<not> (startswith d ''92'' \<and> length d \<ge> 12)" "\<not> (startswith d ''0'' \<and> length d = 11)"
          "length d \<noteq> 10"
    by blast
  then show ?thesis
  proof cases
    case a
    then have "normalize_to_e164 s = ''+'' @ d"
      using False by (auto simp add: normalize_to_e164_def d_def Let_def)
    moreover have "normalize_to_e164 (''+'' @ d) = ''+'' @ d"
      using a dd by (auto simp add: normalize_to_e164_def Let_def)
    ultimately show ?thesis by simp
  next
    case b
    then have "normalize_to_e164 s = ''+92'' @ drop 1 d"
      using False by (auto simp add: normalize_to_e164_def d_def Let_def)
    moreover have "normalize_to_e164 (''+92'' @ drop 1 d) = ''+92'' @ drop 1 d"
      using b dr by (auto simp add: normalize_to_e164_def startswith_def Let_def)
    ultimately show ?thesis by simp
  next
    case c
    then have "normalize_to_e164 s = ''+92'' @ d"
      using False by (auto simp add: normalize_to_e164_def d_def Let_def)
    moreover have "normalize_to_e164 (''+92'' @ d) = ''+92'' @ d"
      using c dd by (auto simp add: normalize_to_e164_def startswith_def Let_def)
    ultimately show ?thesis by simp
  next
    case e
    then have "normalize_to_e164 s = ''+'' @ d"
      using False by (auto simp add: normalize_to_e164_def d_def Let_def)
    moreover have "normalize_to_e164 (''+'' @ d) = ''+'' @ d"
      using e dd by (auto simp add: normalize_to_e164_def Let_def)
    ultimately show ?thesis by simp
  qed
qed

section \<open>Correctness of the search in one pass\<close>

lemma wordchar_at_append:
  "wordchar_at (pre @ rest) (length pre) = (case rest of [] \<Rightarrow> False | c # _ \<Rightarrow> wordchar c)"
  by (cases rest) (simp_all add: wordchar_at_def)

lemma wordchar_before_append:
  "(0 < length pre \<and> wordchar_at (pre @ rest) (length pre - 1)) = before_word pre"
proof (cases pre rule: rev_cases)
  case Nil
  then show ?thesis by (simp add: before_word_def)
next
  case (snoc ys y)
  then show ?thesis by (simp add: before_word_def wordchar_at_def nth_append)
qed

lemma boundary_at_append:
  "boundary_at (pre @ rest) (length pre) =
     (before_word pre \<noteq> (case rest of [] \<Rightarrow> False | c # _ \<Rightarrow> wordchar c))"
  unfolding boundary_at_def wordchar_at_append
  using wordchar_before_append [of pre rest] by simp

lemma alt_here_correct:
  "alt_here (marked rest) (before_word pre) (lower alt) =
     (lower (take (length alt) rest) = lower alt
      \<and> boundary_at (pre @ rest) (length pre + length alt))"
proof (induction alt arbitrary: pre rest)
  case Nil
  show ?case
    using boundary_at_append [of pre rest]
    by (cases rest) (simp_all add: lower_def marked_def)
next
  case (Cons a as)
  show ?case
  proof (cases rest)
    case Nil
    then show ?thesis by (simp add: lower_def marked_def)
  next
    case (Cons c cs)
    have bw: "before_word (pre @ [c]) = wordchar c"
      by (simp add: before_word_def)
    have "alt_here (marked cs) (before_word (pre @ [c])) (lower as) =
            (lower (take (length as) cs) = lower as
             \<and> boundary_at ((pre @ [c]) @ cs) (length (pre @ [c]) + length as))"
      by (rule Cons.IH)
    then show ?thesis
      using Cons bw by (simp add: lower_def marked_def)
  qed
qed

lemma matches_at_append:
  "matches_at (pre @ rest) (length pre) alt =
     (boundary_at (pre @ rest) (length pre)
      \<and> alt_here (marked rest) (before_word pre) (lower alt))"
  by (simp add: matches_at_def alt_here_correct)

lemma scan_correct:
  "scan (before_word pre) (marked rest) (map lower alts) =
     (\<exists>i \<in> {length pre .. length pre + length rest}. \<exists>alt \<in> set alts.
        matches_at (pre @ rest) i alt)"
proof (induction rest arbitrary: pre)
  case Nil
  have "boundary_at pre (length pre) = before_word pre"
    using boundary_at_append [of pre "[]"] by simp
  then show ?case
    using matches_at_append [of pre "[]"]
    by (auto simp add: marked_def list_ex_iff)
next
  case (Cons c cs)
  have bw: "before_word (pre @ [c]) = wordchar c"
    by (simp add: before_word_def)
  have split: "{length pre .. length pre + length (c # cs)} =
                 insert (length pre) {length (pre @ [c]) .. length (pre @ [c]) + length cs}"
    by auto
  have here: "(\<exists>alt \<in> set alts. matches_at (pre @ c # cs) (length pre) alt) =
                (before_word pre \<noteq> wordchar c
                 \<and> list_ex (alt_here (marked (c # cs)) (before_word pre)) (map lower alts))"
    using boundary_at_append [of pre "c # cs"]
    by (simp add: matches_at_append list_ex_iff)
  have later: "scan (wordchar c) (marked cs) (map lower alts) =
                 (\<exists>i \<in> {length (pre @ [c]) .. length (pre @ [c]) + length cs}.
                    \<exists>alt \<in> set alts. matches_at (pre @ c # cs) i alt)"
    using Cons.IH [of "pre @ [c]"] bw by simp
  have "scan (before_word pre) (marked (c # cs)) (map lower alts) =
          ((before_word pre \<noteq> wordchar c
            \<and> list_ex (alt_here (marked (c # cs)) (before_word pre)) (map lower alts))
           \<or> scan (wordchar c) (marked cs) (map lower alts))"
    by (simp add: marked_def)
  then show ?case
    unfolding split here [symmetric] later by blast
qed

lemma re_search_scan:
  "re_search alts s = scan False (marked s) (map lower alts)"
proof -
  have "scan (before_word []) (marked s) (map lower alts) =
          (\<exists>i \<in> {0 .. length s}. \<exists>alt \<in> set alts. matches_at s i alt)"
    using scan_correct [of "[]" s alts] by simp
  moreover have "set [0 ..< Suc (length s)] = {0 .. length s}"
    by auto
  ultimately show ?thesis
    by (simp add: re_search_def list_ex_iff before_word_def)
qed

section \<open>Evaluation of the classifier and of the keyword checks\<close>

lemmas char_eval = lower_def lower_char_def wordchar_def isspace_def code_def char_of_def bit_0

lemma lowered_patterns:
  "map (map lower) pricing_patterns = pricing_patterns"
  "map (map lower) support_patterns = support_patterns"
  "map (map lower) general_patterns = general_patterns"
  "map (map lower) greeting_words = greeting_words"
  by (simp_all add: pricing_patterns_def support_patterns_def general_patterns_def
        greeting_words_def char_eval)

lemma matches_patterns_scan:
  "matches_patterns s patterns =
     list_ex (\<lambda>alts. scan False (marked s) alts) (map (map lower) patterns)"
  by (simp add: matches_patterns_def re_search_scan list_ex_iff)

lemma startswith_eval:
  "startswith s [] = True"
  "startswith [] (k # ks) = False"
  "startswith (c # cs) (k # ks) = (if c = k then startswith cs ks else False)"
  by (auto simp add: startswith_def)

lemma classify_cases:
  "classify_message m =
     (if matches_patterns (strip (lower m)) pricing_patterns then
        \<lparr>ctype = ''pricing'',
         response = ''Our pricing starts from $99. Would you like the full details?'',
         confidence = 0.9\<rparr>
      else if matches_patterns (strip (lower m)) support_patterns then
        \<lparr>ctype = ''support'',
         response = ''I'm here to help. Could you share more details about the issue?'',
         confidence = 0.8\<rparr>
      else if matches_patterns (strip (lower m)) general_patterns then
        \<lparr>ctype = ''general'',
         response = ''Thanks for your message! Our team will respond shortly.'',
         confidence = 0.7\<rparr>
      else if matches_patterns (strip (lower m)) greeting_words then
        \<lparr>ctype = ''greeting'',
         response = ''Hello '' @ emoji_wave @ '' How can I help you today?'',
         confidence = 0.9\<rparr>
      else
        \<lparr>ctype = ''other'',
         response = ''Thanks for your message! Our team will respond shortly.'',
         confidence = 0.5\<rparr>)"
  by (simp add: classify_message_def Let_def)

text \<open>The texts of the examples.\<close>

lemma client_phone: "normalize_to_e164 ''03001112233'' = ''+923001112233''"
  by (simp add: normalize_to_e164_def startswith_def isdigit_def code_def)

lemma proceed_lower:
  "lower ''sounds good, let's proceed'' = ''sounds good, let's proceed''"
  "strip ''sounds good, let's proceed'' = ''sounds good, let's proceed''"
  by (simp_all add: strip_def char_eval)

lemma proceed_marked:
  "marked ''sounds good, let's proceed'' =
     [(CHR ''s'', True), (CHR ''o'', True), (CHR ''u'', True), (CHR ''n'', True),
      (CHR ''d'', True), (CHR ''s'', True), (CHR '' '', False), (CHR ''g'', True),
      (CHR ''o'', True), (CHR ''o'', True), (CHR ''d'', True), (CHR '','', False),
      (CHR '' '', False), (CHR ''l'', True), (CHR ''e'', True), (CHR ''t'', True),
      (CHR 0x27, False), (CHR ''s'', True), (CHR '' '', False), (CHR ''p'', True),
      (CHR ''r'', True), (CHR ''o'', True), (CHR ''c'', True), (CHR ''e'', True),
      (CHR ''e'', True), (CHR ''d'', True)]"
  by (simp add: marked_def char_eval)

lemma proceed_unclassified:
  "\<not> matches_patterns ''sounds good, let's proceed'' pricing_patterns"
  "\<not> matches_patterns ''sounds good, let's proceed'' support_patterns"
  "\<not> matches_patterns ''sounds good, let's proceed'' general_patterns"
  "\<not> matches_patterns ''sounds good, let's proceed'' greeting_words"
  unfolding matches_patterns_scan lowered_patterns proceed_marked
  by (simp_all add: pricing_patterns_def support_patterns_def general_patterns_def
        greeting_words_def)

lemma proceed_facts:
  "confidence (classify_message ''sounds good, let's proceed'') < 0.8"
  "\<not> wants_team_contact ''sounds good, let's proceed''"
  "check_for_completion_keywords ''sounds good, let's proceed''"
    apply (simp add: classify_cases proceed_lower proceed_unclassified)
   apply (simp add: wants_team_contact_def proceed_lower team_contact_keywords_def startswith_eval)
  apply (simp add: check_for_completion_keywords_def proceed_lower completion_keywords_def
      startswith_eval)
  done

lemma help_lower:
  "lower ''I need help'' = ''i need help''"
  "strip ''i need help'' = ''i need help''"
  by (simp_all add: strip_def char_eval)

lemma help_marked:
  "marked ''i need help'' =
     [(CHR ''i'', True), (CHR '' '', False), (CHR ''n'', True), (CHR ''e'', True),
      (CHR ''e'', True), (CHR ''d'', True), (CHR '' '', False), (CHR ''h'', True),
      (CHR ''e'', True), (CHR ''l'', True), (CHR ''p'', True)]"
  by (simp add: marked_def char_eval)

lemma help_classified:
  "\<not> matches_patterns ''i need help'' pricing_patterns"
  "matches_patterns ''i need help'' support_patterns"
  unfolding matches_patterns_scan lowered_patterns help_marked
  by (simp_all add: pricing_patterns_def support_patterns_def)

lemma help_support:
  "classify_message ''I need help'' =
     \<lparr>ctype = ''support'',
      response = ''I'm here to help. Could you share more details about the issue?'',
      confidence = 0.8\<rparr>"
  by (simp add: classify_cases help_lower help_classified)





lemma cost_lower:
  "lower ''cost'' = ''cost''"
  "strip ''cost'' = ''cost''"
  by (simp_all add: strip_def char_eval)

lemma cost_marked:
  "marked ''cost'' = [(CHR ''c'', True), (CHR ''o'', True), (CHR ''s'', True), (CHR ''t'', True)]"
  by (simp add: marked_def char_eval)

lemma cost_pricing:
  "classify_message ''cost'' =
     \<lparr>ctype = ''pricing'',
      response = ''Our pricing starts from $99. Would you like the full details?'',
      confidence = 0.9\<rparr>"
proof -
  have "matches_patterns ''cost'' pricing_patterns"
    unfolding matches_patterns_scan lowered_patterns cost_marked
    by (simp add: pricing_patterns_def)
  then show ?thesis
    by (simp add: classify_cases cost_lower)
qed

lemma support_cost_lower:
  "lower ''how much does support cost'' = ''how much does support cost''"
  "strip ''how much does support cost'' = ''how much does support cost''"
  by (simp_all add: strip_def char_eval)

lemma support_cost_marked:
  "marked ''how much does support cost'' =
     [(CHR ''h'', True), (CHR ''o'', True), (CHR ''w'', True), (CHR '' '', False),
      (CHR ''m'', True), (CHR ''u'', True), (CHR ''c'', True), (CHR ''h'', True),
      (CHR '' '', False), (CHR ''d'', True), (CHR ''o'', True), (CHR ''e'', True),
      (CHR ''s'', True), (CHR '' '', False), (CHR ''s'', True), (CHR ''u'', True),
      (CHR ''p'', True), (CHR ''p'', True), (CHR ''o'', True), (CHR ''r'', True),
      (CHR ''t'', True), (CHR '' '', False), (CHR ''c'', True), (CHR ''o'', True),
      (CHR ''s'', True), (CHR ''t'', True)]"
  by (simp add: marked_def char_eval)

lemma support_cost_both:
  "matches_patterns (strip (lower ''how much does support cost'')) pricing_patterns"
  "matches_patterns (strip (lower ''how much does support cost'')) support_patterns"
  unfolding support_cost_lower matches_patterns_scan lowered_patterns support_cost_marked
  by (simp_all add: pricing_patterns_def support_patterns_def)

section \<open>Steps of the engine\<close>

lemma send_outbox [simp]:
  "outbox (fst (send_whatsapp_message ok st ph body)) =
     outbox st @ [(normalize_to_e164 ph, body, ok)]"
  "store (fst (send_whatsapp_message ok st ph body)) = store st"
  "snd (send_whatsapp_message ok st ph body) = ok"
  by (simp_all add: send_whatsapp_message_def Let_def)

lemma notify_team_state [simp]:
  "outbox (fst (notify_team e st body ph cl pd)) =
     outbox st @ [(normalize_to_e164 (team_number e), team_message_text body ph cl pd,
                   alert_delivered e)]"
  "store (fst (notify_team e st body ph cl pd)) = store st"
  by (simp_all add: notify_team_def)

lemma determine_response_store [simp]:
  "store (snd (snd (snd (determine_response e st conv ph m)))) = store st"
  by (simp add: determine_response_def Let_def)

lemma determine_response_phone [simp]:
  "phone_number (fst (snd (determine_response e st conv ph m))) = phone_number conv"
  by (simp add: determine_response_def Let_def)

lemma determine_response_status:
  "status (fst (snd (determine_response e st conv ph m))) = status conv
   \<or> status (fst (snd (determine_response e st conv ph m))) = ''finalized''"
  by (simp add: determine_response_def Let_def)


text \<open>What a call does once the conversation has been fetched or created.\<close>

lemma handle_after_fetch:
  assumes "get_or_create_conversation e st ph = (st1, Inr c0)"
      and "determine_response e st1
             (c0\<lparr>conversation := conversation c0 @ [\<lparr>role = Client, message = m\<rparr>],
                 messages_used := messages_used c0 + 1\<rparr>) ph m = (b, c2, r, st2)"
  shows "handle_incoming_message e st ph m =
           (if replace_ok e
            then send_whatsapp_message (reply_delivered e)
                   (st2\<lparr>store := (store st2)
                      (phone_number c2 \<mapsto>
                         c2\<lparr>conversation := conversation c2 @ [\<lparr>role = Assistant, message = r\<rparr>],
                            doc_id := Some (phone_number c2)\<rparr>)\<rparr>) ph r
            else (st2, False))"
  using assms
  by (simp add: handle_incoming_message_def save_conversation_def Let_def)

lemma handle_fetch_failed:
  assumes "get_or_create_conversation e st ph = (st1, Inl err)"
  shows "handle_incoming_message e st ph m = (st1, False)"
  using assms by (simp add: handle_incoming_message_def)

lemma get_or_create_cases:
  "get_or_create_conversation e st ph =
     (if \<not> find_ok e then (st, Inl DbError)
      else case store st (normalize_to_e164 ph) of
             Some d \<Rightarrow> (st, Inr (d\<lparr>doc_id := Some (normalize_to_e164 ph)\<rparr>))
           | None \<Rightarrow>
               if insert_ok e
               then (st\<lparr>store := (store st)(normalize_to_e164 ph \<mapsto>
                         \<lparr>doc_id = Some (normalize_to_e164 ph), client_name = None,
                          phone_number = normalize_to_e164 ph, conversation = [],
                          status = ''pending'', messages_used = 0\<rparr>)\<rparr>,
                     Inr \<lparr>doc_id = None, client_name = None,
                          phone_number = normalize_to_e164 ph, conversation = [],
                          status = ''pending'', messages_used = 0\<rparr>)
               else (st, Inl DbError))"
  by (simp add: get_or_create_conversation_def Let_def split: option.splits)

lemma handle_existing:
  assumes "store st (normalize_to_e164 ph) = Some d" "find_ok e" "replace_ok e"
      and "determine_response e st
             (d\<lparr>doc_id := Some (normalize_to_e164 ph),
                conversation := conversation d @ [\<lparr>role = Client, message = m\<rparr>],
                messages_used := messages_used d + 1\<rparr>) ph m = (b, c2, r, st2)"
  shows "handle_incoming_message e st ph m =
           send_whatsapp_message (reply_delivered e)
             (st2\<lparr>store := (store st2)
                (phone_number c2 \<mapsto>
                   c2\<lparr>conversation := conversation c2 @ [\<lparr>role = Assistant, message = r\<rparr>],
                      doc_id := Some (phone_number c2)\<rparr>)\<rparr>) ph r"
proof -
  have g: "get_or_create_conversation e st ph =
             (st, Inr (d\<lparr>doc_id := Some (normalize_to_e164 ph)\<rparr>))"
    using assms(1,2) by (simp add: get_or_create_cases)
  show ?thesis
    using handle_after_fetch [OF g, of m b c2 r st2] assms(3,4) by simp
qed

lemma handle_result_aux:
  "snd (handle_incoming_message e st ph m) =
     (find_ok e \<and> (store st (normalize_to_e164 ph) = None \<longrightarrow> insert_ok e)
      \<and> replace_ok e \<and> reply_delivered e)"
proof (cases "get_or_create_conversation e st ph")
  case (Pair st1 res)
  show ?thesis
  proof (cases res)
    case (Inl err)
    with Pair have "handle_incoming_message e st ph m = (st1, False)"
      by (simp add: handle_fetch_failed)
    moreover from Pair Inl have "\<not> (find_ok e \<and> (store st (normalize_to_e164 ph) = None \<longrightarrow> insert_ok e))"
      by (auto simp add: get_or_create_cases split: if_splits option.splits)
    ultimately show ?thesis by auto
  next
    case (Inr c0)
    obtain b c2 r st2 where d: "determine_response e st1
             (c0\<lparr>conversation := conversation c0 @ [\<lparr>role = Client, message = m\<rparr>],
                 messages_used := messages_used c0 + 1\<rparr>) ph m = (b, c2, r, st2)"
      by (metis prod_cases4)
    from Pair Inr have ok: "find_ok e \<and> (store st (normalize_to_e164 ph) = None \<longrightarrow> insert_ok e)"
      by (auto simp add: get_or_create_cases split: if_splits option.splits)
    from Pair Inr d show ?thesis
      using ok by (simp add: handle_after_fetch)
  qed
qed

text \<open>The arms of the chain for a client whose name is known.\<close>

lemma classified_arm:
  assumes "truthy (client_name conv)" "client_name conv \<noteq> Some ''Unknown''"
          "0.8 \<le> confidence (classify_message m)" "ctype (classify_message m) \<noteq> ''pricing''"
  shows "determine_response e st conv ph m =
           (Classified, conv, response (classify_message m), st)"
  using assms by (simp add: determine_response_def Let_def)

lemma completion_arm:
  assumes "truthy (client_name conv)" "client_name conv \<noteq> Some ''Unknown''"
          "confidence (classify_message m) < 0.8" "\<not> wants_team_contact m"
          "check_for_completion_keywords m"
  shows "determine_response e st conv ph m =
           (Completion, conv\<lparr>status := ''finalized''\<rparr>,
            ''Great! Your project description has been saved. Our team will reach out to you soon.'',
            fst (notify_team e st
                   (emoji_check @ '' PROJECT FINALIZED\<newline>\<newline>''
                      @ format_conversation_summary (conv\<lparr>status := ''finalized''\<rparr>))
                   (Some ph) (client_name conv)
                   (Some ''Client has finalized their project requirements'')))"
  using assms by (simp add: determine_response_def Let_def)



text \<open>The first two messages of a new client.\<close>

lemma first_message:
  assumes "store st (normalize_to_e164 ph) = None" "find_ok e" "insert_ok e" "replace_ok e"
  shows "handle_incoming_message e st ph m =
           (st\<lparr>store := (store st)(normalize_to_e164 ph \<mapsto>
               \<lparr>doc_id = Some (normalize_to_e164 ph), client_name = Some ''Unknown'',
                phone_number = normalize_to_e164 ph,
                conversation = [\<lparr>role = Client, message = m\<rparr>,
                                \<lparr>role = Assistant, message = ''Hello! What is your name, sir?''\<rparr>],
                status = ''pending'', messages_used = 1\<rparr>),
             outbox := outbox st @ [(normalize_to_e164 ph, ''Hello! What is your name, sir?'',
                                   reply_delivered e)]\<rparr>,
            reply_delivered e)"
  using assms
  by (simp add: handle_incoming_message_def get_or_create_cases determine_response_def
        save_conversation_def send_whatsapp_message_def truthy_def Let_def)

lemma name_message:
  assumes "store st (normalize_to_e164 ph) = Some d" "client_name d = Some ''Unknown''"
          "find_ok e" "replace_ok e"
  shows "handle_incoming_message e st ph m =
           (st\<lparr>store := (store st)(phone_number d \<mapsto>
               d\<lparr>doc_id := Some (phone_number d), client_name := Some (strip m),
                  conversation := conversation d @
                    [\<lparr>role = Client, message = m\<rparr>,
                     \<lparr>role = Assistant,
                      message = ''Nice to meet you, '' @ strip m
                        @ ''! I'm here to help you with your project requirements. What type of app or website are you looking to build?''\<rparr>],
                  messages_used := messages_used d + 1\<rparr>),
             outbox := outbox st @
               [(normalize_to_e164 ph,
                 ''Nice to meet you, '' @ strip m
                   @ ''! I'm here to help you with your project requirements. What type of app or website are you looking to build?'',
                 reply_delivered e)]\<rparr>,
            reply_delivered e)"
  using assms
  by (cases d; cases st)
     (simp add: handle_incoming_message_def get_or_create_cases determine_response_def
        save_conversation_def send_whatsapp_message_def truthy_def Let_def)

text \<open>The alert of a finalization holds the transcript.\<close>

lemma format_message_line:
  "format_message =
     (\<lambda>t. (if role t = Client
           then [CHR 0xF0, CHR 0x9F, CHR 0x91, CHR 0xA4]
           else [CHR 0xF0, CHR 0x9F, CHR 0xA4, CHR 0x96])
          @ '' '' @ (if role t = Client then ''Client'' else ''Assistant'')
          @ '': '' @ message t @ ''\<newline>'')"
proof
  fix t
  show "format_message t =
          (if role t = Client
           then [CHR 0xF0, CHR 0x9F, CHR 0x91, CHR 0xA4]
           else [CHR 0xF0, CHR 0x9F, CHR 0xA4, CHR 0x96])
          @ '' '' @ (if role t = Client then ''Client'' else ''Assistant'')
          @ '': '' @ message t @ ''\<newline>''"
    by (cases "role t")
       (simp_all add: format_message_def role_title_def emoji_bust_def emoji_robot_def Let_def)
qed

lemma summary_holds_turns:
  "sublist (concat (map format_message (conversation conv)))
     (team_message_text (pre @ format_conversation_summary conv) ph cl pd)"
proof -
  let ?turns = "concat (map format_message (conversation conv))"
  obtain hd1 where s: "format_conversation_summary conv = hd1 @ ?turns"
    by (simp add: format_conversation_summary_def)
  obtain a b where t: "team_message_text (pre @ format_conversation_summary conv) ph cl pd =
      a @ (pre @ format_conversation_summary conv) @ b"
    unfolding team_message_text_def by (metis append.assoc)
  have "a @ (pre @ format_conversation_summary conv) @ b = (a @ pre @ hd1) @ ?turns @ b"
    by (simp add: s)
  then show ?thesis
    unfolding t by (metis sublist_appendI)
qed

text \<open>
  What a call does to the collection: nothing, or a new record under the normalized
  number, or a new version of the record it fetched. Every record of a reachable
  collection is stored under its own phone number, with one of the two statuses.
\<close>

lemma handle_store_effect:
  "store (fst (handle_incoming_message e st ph m)) = store st
   \<or> (\<exists>c. store st (normalize_to_e164 ph) = None
          \<and> store (fst (handle_incoming_message e st ph m)) = (store st)(normalize_to_e164 ph \<mapsto> c)
          \<and> phone_number c = normalize_to_e164 ph
          \<and> (status c = ''pending'' \<or> status c = ''finalized''))
   \<or> (\<exists>d c. store st (normalize_to_e164 ph) = Some d
          \<and> store (fst (handle_incoming_message e st ph m)) = (store st)(phone_number d \<mapsto> c)
          \<and> phone_number c = phone_number d
          \<and> (status c = status d \<or> status c = ''finalized''))"
proof (cases "get_or_create_conversation e st ph")
  case (Pair st1 res)
  show ?thesis
  proof (cases res)
    case (Inl err)
    with Pair have "handle_incoming_message e st ph m = (st1, False)"
      by (simp add: handle_fetch_failed)
    moreover from Pair Inl have "st1 = st"
      by (auto simp add: get_or_create_cases split: if_splits option.splits)
    ultimately show ?thesis by simp
  next
    case (Inr c0)
    let ?conv = "c0\<lparr>conversation := conversation c0 @ [\<lparr>role = Client, message = m\<rparr>],
                    messages_used := messages_used c0 + 1\<rparr>"
    obtain b c2 r st2 where arm: "determine_response e st1 ?conv ph m = (b, c2, r, st2)"
      by (metis prod_cases4)
    have c2: "phone_number c2 = phone_number c0"
             "status c2 = status c0 \<or> status c2 = ''finalized''"
             "store st2 = store st1"
      using determine_response_phone [of e st1 ?conv ph m]
            determine_response_status [of e st1 ?conv ph m]
            determine_response_store [of e st1 ?conv ph m] arm by simp_all
    note run = handle_after_fetch [OF Pair [unfolded Inr] arm]
    show ?thesis
    proof (cases "store st (normalize_to_e164 ph)")
      case None
      with Pair Inr have new: "insert_ok e" "phone_number c0 = normalize_to_e164 ph"
          "status c0 = ''pending''"
          "store st1 = (store st)(normalize_to_e164 ph \<mapsto> c0\<lparr>doc_id := Some (normalize_to_e164 ph)\<rparr>)"
        by (auto simp add: get_or_create_cases split: if_splits)
      show ?thesis
      proof (cases "replace_ok e")
        case True
        then show ?thesis
          unfolding run using None new c2 by auto
      next
        case False
        then show ?thesis
          unfolding run using None new c2 by auto
      qed
    next
      case (Some d)
      with Pair Inr have old: "c0 = d\<lparr>doc_id := Some (normalize_to_e164 ph)\<rparr>" "st1 = st"
        by (auto simp add: get_or_create_cases split: if_splits)
      show ?thesis
      proof (cases "replace_ok e")
        case True
        then show ?thesis
          unfolding run using Some old c2 by auto
      next
        case False
        then show ?thesis
          unfolding run using Some old c2 by auto
      qed
    qed
  qed
qed

lemma keyed_preserved:
  assumes inv: "\<forall>k d. store st k = Some d \<longrightarrow>
             phone_number d = k \<and> (status d = ''pending'' \<or> status d = ''finalized'')"
      and after: "store (fst (handle_incoming_message e st ph m)) k = Some d"
  shows "phone_number d = k \<and> (status d = ''pending'' \<or> status d = ''finalized'')"
proof -
  consider
    (same) "store (fst (handle_incoming_message e st ph m)) = store st"
  | (created) c where "store st (normalize_to_e164 ph) = None"
      "store (fst (handle_incoming_message e st ph m)) = (store st)(normalize_to_e164 ph \<mapsto> c)"
      "phone_number c = normalize_to_e164 ph"
      "status c = ''pending'' \<or> status c = ''finalized''"
  | (replaced) d0 c where "store st (normalize_to_e164 ph) = Some d0"
      "store (fst (handle_incoming_message e st ph m)) = (store st)(phone_number d0 \<mapsto> c)"
      "phone_number c = phone_number d0"
      "status c = status d0 \<or> status c = ''finalized''"
    using handle_store_effect [of e st ph m] by blast
  then show ?thesis
  proof cases
    case same
    with inv after show ?thesis by simp
  next
    case created
    show ?thesis
    proof (cases "k = normalize_to_e164 ph")
      case True
      with created after show ?thesis by auto
    next
      case False
      with created after have "store st k = Some d" by simp
      with inv show ?thesis by simp
    qed
  next
    case replaced
    from inv replaced(1) have d0: "status d0 = ''pending'' \<or> status d0 = ''finalized''"
      by blast
    show ?thesis
    proof (cases "k = phone_number d0")
      case True
      with replaced after d0 show ?thesis by auto
    next
      case False
      with replaced after have "store st k = Some d" by simp
      with inv show ?thesis by simp
    qed
  qed
qed

lemma reachable_keyed:
  "reachable st \<Longrightarrow>
     \<forall>k d. store st k = Some d \<longrightarrow>
       phone_number d = k \<and> (status d = ''pending'' \<or> status d = ''finalized'')"
proof (induction rule: reachable.induct)
  case start
  then show ?case by (simp add: initial_def)
next
  case (step st e phone message_content)
  then show ?case
    using keyed_preserved [of st e phone message_content] by blast
qed

lemma fetched_phone_canonical:
  assumes "reachable st" "get_or_create_conversation e st ph = (st1, Inr c)"
  shows "normalize_to_e164 (phone_number c) = phone_number c"
proof (cases "store st (normalize_to_e164 ph)")
  case None
  with assms(2) have "phone_number c = normalize_to_e164 ph"
    by (auto simp add: get_or_create_cases split: if_splits)
  then show ?thesis
    by (simp add: normalize_fixed_point)
next
  case (Some d)
  with assms(2) have "phone_number c = phone_number d"
    by (auto simp add: get_or_create_cases split: if_splits)
  moreover from reachable_keyed [OF assms(1)] Some have "phone_number d = normalize_to_e164 ph"
    by blast
  ultimately show ?thesis
    by (simp add: normalize_fixed_point)
qed

section \<open>The claims\<close>

text \<open>
  C1, as stated: the chain tests, first match winning, (1) name unset and counter 1 after
  the increment, (2) name unset or \<open>Unknown\<close>, (3) confidence at least 0.8, (4) a
  team-contact keyword, (5) a completion keyword, (6) counter at least 20, (7) the
  completion client. It fails for a record whose name is the empty text, which is what
  a blank second message leaves: the source tests \<open>not conversation.client_name\<close>,
  which holds of the empty text too, and takes the message \<open>cost\<close> as the name, where
  the tests as stated reach the classified reply.
\<close>

theorem ladder_as_stated_counterexample:
  "store (fst (handle_incoming_message all_up
                 (fst (handle_incoming_message all_up initial ''03001112233'' ''hi''))
                 ''03001112233'' '' ''))
     ''+923001112233'' = Some blank_name
   \<and> fst (determine_response all_up initial
            (blank_name\<lparr>conversation := conversation blank_name @ [\<lparr>role = Client, message = ''cost''\<rparr>],
                        messages_used := messages_used blank_name + 1\<rparr>)
            ''03001112233'' ''cost'') = NameCapture
   \<and> ladder_as_stated
         (blank_name\<lparr>conversation := conversation blank_name @ [\<lparr>role = Client, message = ''cost''\<rparr>],
                     messages_used := messages_used blank_name + 1\<rparr>)
         ''cost'' = Classified"
proof -
  let ?st1 = "fst (handle_incoming_message all_up initial ''03001112233'' ''hi'')"
  have fresh: "store initial (normalize_to_e164 ''03001112233'') = None"
    by (simp add: initial_def)
  have up: "find_ok all_up" "insert_ok all_up" "replace_ok all_up"
    by (simp_all add: all_up_def)
  have blank: "strip '' '' = ''''"
    by (simp add: strip_def isspace_def code_def)
  let ?asked = "\<lparr>doc_id = Some ''+923001112233'', client_name = Some ''Unknown'',
                 phone_number = ''+923001112233'',
                 conversation = [\<lparr>role = Client, message = ''hi''\<rparr>,
                                 \<lparr>role = Assistant, message = ''Hello! What is your name, sir?''\<rparr>],
                 status = ''pending'', messages_used = 1\<rparr>"
  have asked: "store ?st1 (normalize_to_e164 ''03001112233'') = Some ?asked"
    unfolding first_message [OF fresh up] by (simp add: client_phone)
  have unknown: "client_name ?asked = Some ''Unknown''"
    by simp
  have stored: "store (fst (handle_incoming_message all_up ?st1 ''03001112233'' '' ''))
                  ''+923001112233'' = Some blank_name"
    unfolding name_message [OF asked unknown up(1,3)]
    by (simp add: blank blank_name_def)
  have taken: "fst (determine_response all_up initial
            (blank_name\<lparr>conversation := conversation blank_name @ [\<lparr>role = Client, message = ''cost''\<rparr>],
                        messages_used := messages_used blank_name + 1\<rparr>)
            ''03001112233'' ''cost'') = NameCapture"
    by (simp add: determine_response_def blank_name_def truthy_def Let_def)
  have stated: "ladder_as_stated
         (blank_name\<lparr>conversation := conversation blank_name @ [\<lparr>role = Client, message = ''cost''\<rparr>],
                     messages_used := messages_used blank_name + 1\<rparr>)
         ''cost'' = Classified"
    by (simp add: ladder_as_stated_def blank_name_def cost_pricing)
  from stored taken stated show ?thesis
    by blast
qed

text \<open>
  C1, amended: for every inbound message \<open>handle_incoming_message\<close> selects exactly one
  reply branch by testing, in this strict order with first match winning: (1) name unset
  or empty and counter 1 after the increment, (2) name unset, empty or \<open>Unknown\<close>,
  (3) classification confidence at least 0.8, (4) a team-contact keyword as a substring
  of the lower-cased message, (5) a completion keyword, (6) counter at least 20, (7) the
  completion client.

  The theorem states the order for the chain of the source, run on any record; that the
  reply the chain gives is the one of the arm taken; and, where the conversation has been
  fetched or created and the save succeeds, that the chain is run on the fetched record
  with the counter incremented and that its reply is what goes to the client.
\<close>

theorem determine_response_order:
  "fst (determine_response e st conv ph m) =
     (if (client_name conv = None \<or> client_name conv = Some '''') \<and> messages_used conv = 1
        then NameRequest
      else if client_name conv = None \<or> client_name conv = Some ''''
              \<or> client_name conv = Some ''Unknown''
        then NameCapture
      else if confidence (classify_message m) \<ge> 0.8 then Classified
      else if wants_team_contact m then TeamContact
      else if check_for_completion_keywords m then Completion
      else if messages_used conv \<ge> 20 then LimitReached
      else Fallback)
   \<and> fst (snd (snd (determine_response e st conv ph m))) =
     (case fst (determine_response e st conv ph m) of
        NameRequest \<Rightarrow> ''Hello! What is your name, sir?''
      | NameCapture \<Rightarrow>
          ''Nice to meet you, '' @ strip m
            @ ''! I'm here to help you with your project requirements. What type of app or website are you looking to build?''
      | Classified \<Rightarrow> response (classify_message m)
      | TeamContact \<Rightarrow>
          ''Perfect! I'll have our team reach out to you shortly to discuss your project requirements in detail.''
      | Completion \<Rightarrow>
          ''Great! Your project description has been saved. Our team will reach out to you soon.''
      | LimitReached \<Rightarrow>
          ''You've reached the message limit. Our team will contact you shortly.''
      | Fallback \<Rightarrow>
          llama e (map (\<lambda>msg. (role msg, message msg)) (butlast (conversation conv))) m)
   \<and> (get_or_create_conversation e st ph = (st1, Inr fetched) \<and> replace_ok e \<longrightarrow>
        outbox (fst (handle_incoming_message e st ph m)) =
          outbox (snd (snd (snd (determine_response e st1
                    (fetched\<lparr>conversation := conversation fetched @ [\<lparr>role = Client, message = m\<rparr>],
                             messages_used := messages_used fetched + 1\<rparr>) ph m))))
          @ [(normalize_to_e164 ph,
              fst (snd (snd (determine_response e st1
                    (fetched\<lparr>conversation := conversation fetched @ [\<lparr>role = Client, message = m\<rparr>],
                             messages_used := messages_used fetched + 1\<rparr>) ph m))),
              reply_delivered e)])"
proof -
  let ?entering = "fetched\<lparr>conversation := conversation fetched @ [\<lparr>role = Client, message = m\<rparr>],
                           messages_used := messages_used fetched + 1\<rparr>"
  have chosen: "fst (determine_response e st conv ph m) =
     (if (client_name conv = None \<or> client_name conv = Some '''') \<and> messages_used conv = 1
        then NameRequest
      else if client_name conv = None \<or> client_name conv = Some ''''
              \<or> client_name conv = Some ''Unknown''
        then NameCapture
      else if confidence (classify_message m) \<ge> 0.8 then Classified
      else if wants_team_contact m then TeamContact
      else if check_for_completion_keywords m then Completion
      else if messages_used conv \<ge> 20 then LimitReached
      else Fallback)"
    by (cases "client_name conv") (simp_all add: determine_response_def truthy_def Let_def)
  have reply: "fst (snd (snd (determine_response e st conv ph m))) =
     (case fst (determine_response e st conv ph m) of
        NameRequest \<Rightarrow> ''Hello! What is your name, sir?''
      | NameCapture \<Rightarrow>
          ''Nice to meet you, '' @ strip m
            @ ''! I'm here to help you with your project requirements. What type of app or website are you looking to build?''
      | Classified \<Rightarrow> response (classify_message m)
      | TeamContact \<Rightarrow>
          ''Perfect! I'll have our team reach out to you shortly to discuss your project requirements in detail.''
      | Completion \<Rightarrow>
          ''Great! Your project description has been saved. Our team will reach out to you soon.''
      | LimitReached \<Rightarrow>
          ''You've reached the message limit. Our team will contact you shortly.''
      | Fallback \<Rightarrow>
          llama e (map (\<lambda>msg. (role msg, message msg)) (butlast (conversation conv))) m)"
    by (cases "client_name conv") (simp_all add: determine_response_def truthy_def Let_def)
  have sent: "outbox (fst (handle_incoming_message e st ph m)) =
          outbox (snd (snd (snd (determine_response e st1 ?entering ph m))))
          @ [(normalize_to_e164 ph, fst (snd (snd (determine_response e st1 ?entering ph m))),
              reply_delivered e)]"
    if run: "get_or_create_conversation e st ph = (st1, Inr fetched)" and "replace_ok e"
  proof -
    obtain b c2 r st2 where arm: "determine_response e st1 ?entering ph m = (b, c2, r, st2)"
      by (metis prod_cases4)
    show ?thesis
      unfolding handle_after_fetch [OF run arm] arm using that(2) by simp
  qed
  from chosen reply sent show ?thesis
    by blast
qed

theorem determine_response_order_witness:
  "get_or_create_conversation all_up (holding (john_smith 0)) ''03001112233'' =
     (holding (john_smith 0), Inr (john_smith 0))
   \<and> replace_ok all_up
   \<and> fst (determine_response all_up (holding (john_smith 0))
            ((john_smith 0)\<lparr>conversation := conversation (john_smith 0)
                                @ [\<lparr>role = Client, message = ''I need help''\<rparr>],
                             messages_used := messages_used (john_smith 0) + 1\<rparr>)
            ''03001112233'' ''I need help'') = Classified
   \<and> outbox (fst (handle_incoming_message all_up (holding (john_smith 0))
                     ''03001112233'' ''I need help'')) =
       [(''+923001112233'',
         ''I'm here to help. Could you share more details about the issue?'', True)]"
proof -
  let ?entering = "(john_smith 0)\<lparr>conversation := conversation (john_smith 0)
                                    @ [\<lparr>role = Client, message = ''I need help''\<rparr>],
                                  messages_used := messages_used (john_smith 0) + 1\<rparr>"
  have got: "get_or_create_conversation all_up (holding (john_smith 0)) ''03001112233'' =
               (holding (john_smith 0), Inr (john_smith 0))"
    by (simp add: get_or_create_cases holding_def john_smith_def client_phone all_up_def)
  have up: "replace_ok all_up" "reply_delivered all_up = True"
    by (simp_all add: all_up_def)
  have arm: "determine_response all_up (holding (john_smith 0)) ?entering ''03001112233'' ''I need help'' =
               (Classified, ?entering, response (classify_message ''I need help''),
                holding (john_smith 0))"
    by (rule classified_arm) (simp_all add: help_support john_smith_def truthy_def)
  note order = determine_response_order [where e = all_up and st = "holding (john_smith 0)"
      and conv = ?entering and ph = "''03001112233''" and m = "''I need help''"
      and ?st1.0 = "holding (john_smith 0)" and fetched = "john_smith 0"]
  from order got up(1)
  have "outbox (fst (handle_incoming_message all_up (holding (john_smith 0))
                     ''03001112233'' ''I need help'')) =
          outbox (snd (snd (snd (determine_response all_up (holding (john_smith 0)) ?entering
                                   ''03001112233'' ''I need help''))))
          @ [(normalize_to_e164 ''03001112233'',
              fst (snd (snd (determine_response all_up (holding (john_smith 0)) ?entering
                               ''03001112233'' ''I need help''))),
              reply_delivered all_up)]"
    by blast
  then have sent: "outbox (fst (handle_incoming_message all_up (holding (john_smith 0))
                     ''03001112233'' ''I need help'')) =
       [(''+923001112233'',
         ''I'm here to help. Could you share more details about the issue?'', True)]"
    unfolding arm by (simp add: help_support client_phone up(2) holding_def)
  have "fst (determine_response all_up (holding (john_smith 0)) ?entering
               ''03001112233'' ''I need help'') = Classified"
    unfolding arm by simp
  with got up(1) sent show ?thesis
    by blast
qed

text \<open>
  C2, as stated: the value returned reflects only whether the reply was delivered, and a
  failure to save never changes it. It fails where the save raises: the handler of
  \<open>handle_incoming_message\<close> catches the error of \<open>save_conversation\<close> and returns
  \<open>False\<close> although the gateway would have delivered the reply.
\<close>

theorem save_failure_counterexample:
  "snd (handle_incoming_message all_up initial ''03001112233'' ''hi'') = True
   \<and> snd (handle_incoming_message (all_up\<lparr>replace_ok := False\<rparr>) initial ''03001112233'' ''hi'') = False
   \<and> reply_delivered (all_up\<lparr>replace_ok := False\<rparr>) = True"
  by (simp add: handle_result_aux all_up_def initial_def)

text \<open>
  C2, amended: \<open>handle_incoming_message\<close> raises nothing and returns \<open>True\<close> exactly when
  the lookup of the conversation succeeded (and its insertion, for a new number), the
  save succeeded and the reply was delivered; whether the team alert was delivered never
  changes the value returned.
\<close>

theorem handle_result:
  "snd (handle_incoming_message e st ph m) =
     (find_ok e \<and> (store st (normalize_to_e164 ph) = None \<longrightarrow> insert_ok e)
      \<and> replace_ok e \<and> reply_delivered e)
   \<and> snd (handle_incoming_message (e\<lparr>alert_delivered := a\<rparr>) st ph m) =
       snd (handle_incoming_message e st ph m)"
  by (simp add: handle_result_aux)

theorem handle_result_witness:
  "store initial (normalize_to_e164 ''03001112233'') = None \<and> insert_ok all_up
   \<and> snd (handle_incoming_message all_up initial ''03001112233'' ''hi'') = True
   \<and> snd (handle_incoming_message (all_up\<lparr>alert_delivered := False\<rparr>) initial ''03001112233'' ''hi'') = True"
  using handle_result [of all_up initial "''03001112233''" "''hi''" False]
  by (simp add: all_up_def initial_def)




text \<open>
  C4: for a client whose name is known, an inbound message that holds a completion
  keyword and matches no earlier arm leaves the status \<open>finalized\<close>, whatever it was,
  is answered with the finalization acknowledgment, and is preceded by one team alert
  whose text contains, in chronological order and without gaps, one line for every turn
  of the conversation up to and including this message: the emoji of the role (bust for
  the client, robot for the assistant), a space, \<open>Client\<close> or \<open>Assistant\<close>, a colon and
  a space, the text of the turn, and a line feed. The store is assumed to respond.
\<close>

theorem completion_finalizes:
  assumes "store st (normalize_to_e164 ph) = Some d" "find_ok e" "replace_ok e"
      and "truthy (client_name d)" "client_name d \<noteq> Some ''Unknown''"
      and "confidence (classify_message m) < 0.8" "\<not> wants_team_contact m"
      and "check_for_completion_keywords m"
      and "st' = fst (handle_incoming_message e st ph m)"
  shows "\<exists>d' payload.
           store st' (phone_number d) = Some d'
           \<and> status d' = ''finalized''
           \<and> conversation d' = conversation d @
               [\<lparr>role = Client, message = m\<rparr>,
                \<lparr>role = Assistant,
                 message = ''Great! Your project description has been saved. Our team will reach out to you soon.''\<rparr>]
           \<and> outbox st' = outbox st @
               [(normalize_to_e164 (team_number e), payload, alert_delivered e),
                (normalize_to_e164 ph,
                 ''Great! Your project description has been saved. Our team will reach out to you soon.'',
                 reply_delivered e)]
           \<and> sublist
                 (concat (map (\<lambda>t. (if role t = Client
                                      then [CHR 0xF0, CHR 0x9F, CHR 0x91, CHR 0xA4]
                                      else [CHR 0xF0, CHR 0x9F, CHR 0xA4, CHR 0x96])
                                     @ '' '' @ (if role t = Client then ''Client'' else ''Assistant'')
                                     @ '': '' @ message t @ ''\<newline>'')
                            (conversation d @ [\<lparr>role = Client, message = m\<rparr>])))
                 payload"
proof -
  let ?conv = "d\<lparr>doc_id := Some (normalize_to_e164 ph),
                 conversation := conversation d @ [\<lparr>role = Client, message = m\<rparr>],
                 messages_used := messages_used d + 1\<rparr>"
  let ?fin = "?conv\<lparr>status := ''finalized''\<rparr>"
  let ?payload = "team_message_text
                    ((emoji_check @ '' PROJECT FINALIZED\<newline>\<newline>'') @ format_conversation_summary ?fin)
                    (Some ph) (client_name d)
                    (Some ''Client has finalized their project requirements'')"
  have arm: "determine_response e st ?conv ph m =
               (Completion, ?fin,
                ''Great! Your project description has been saved. Our team will reach out to you soon.'',
                fst (notify_team e st
                   (emoji_check @ '' PROJECT FINALIZED\<newline>\<newline>''
                      @ format_conversation_summary ?fin)
                   (Some ph) (client_name ?conv)
                   (Some ''Client has finalized their project requirements'')))"
    using assms(4-8) by (intro completion_arm) simp_all
  note run = handle_existing [OF assms(1-3) arm]
  have "sublist (concat (map format_message (conversation ?fin))) ?payload"
    by (rule summary_holds_turns)
  then have turns: "sublist
                 (concat (map (\<lambda>t. (if role t = Client
                                      then [CHR 0xF0, CHR 0x9F, CHR 0x91, CHR 0xA4]
                                      else [CHR 0xF0, CHR 0x9F, CHR 0xA4, CHR 0x96])
                                     @ '' '' @ (if role t = Client then ''Client'' else ''Assistant'')
                                     @ '': '' @ message t @ ''\<newline>'')
                            (conversation ?fin)))
                 ?payload"
    unfolding format_message_line .
  have "store st' (phone_number d) =
          Some (?fin\<lparr>conversation := conversation ?fin @
                  [\<lparr>role = Assistant,
                    message = ''Great! Your project description has been saved. Our team will reach out to you soon.''\<rparr>],
                doc_id := Some (phone_number d)\<rparr>)"
    unfolding assms(9) run by simp
  moreover have "outbox st' = outbox st @
               [(normalize_to_e164 (team_number e), ?payload, alert_delivered e),
                (normalize_to_e164 ph,
                 ''Great! Your project description has been saved. Our team will reach out to you soon.'',
                 reply_delivered e)]"
    unfolding assms(9) run by simp
  ultimately show ?thesis
    using turns by simp
qed

theorem completion_finalizes_witness:
  "store (holding (john_smith 0)) (normalize_to_e164 ''03001112233'') = Some (john_smith 0)
   \<and> find_ok all_up \<and> replace_ok all_up
   \<and> truthy (client_name (john_smith 0))
   \<and> client_name (john_smith 0) \<noteq> Some ''Unknown''
   \<and> confidence (classify_message ''sounds good, let's proceed'') < 0.8
   \<and> \<not> wants_team_contact ''sounds good, let's proceed''
   \<and> check_for_completion_keywords ''sounds good, let's proceed''
   \<and> status (john_smith 0) = ''pending''
   \<and> (\<exists>d' payload.
         store (fst (handle_incoming_message all_up (holding (john_smith 0)) ''03001112233''
                       ''sounds good, let's proceed'')) ''+923001112233'' = Some d'
         \<and> status d' = ''finalized''
         \<and> outbox (fst (handle_incoming_message all_up (holding (john_smith 0)) ''03001112233''
                       ''sounds good, let's proceed'')) =
             [(normalize_to_e164 (team_number all_up), payload, True),
              (''+923001112233'',
               ''Great! Your project description has been saved. Our team will reach out to you soon.'',
               True)]
         \<and> sublist
               ([CHR 0xF0, CHR 0x9F, CHR 0x91, CHR 0xA4] @ '' Client: hi\<newline>''
                @ [CHR 0xF0, CHR 0x9F, CHR 0xA4, CHR 0x96]
                @ '' Assistant: Hello! What is your name, sir?\<newline>''
                @ [CHR 0xF0, CHR 0x9F, CHR 0x91, CHR 0xA4] @ '' Client: John Smith\<newline>''
                @ [CHR 0xF0, CHR 0x9F, CHR 0xA4, CHR 0x96]
                @ '' Assistant: Nice to meet you, John Smith! I'm here to help you with your project requirements. What type of app or website are you looking to build?\<newline>''
                @ [CHR 0xF0, CHR 0x9F, CHR 0x91, CHR 0xA4]
                @ '' Client: sounds good, let's proceed\<newline>'')
               payload)"
proof -
  have held: "store (holding (john_smith 0)) (normalize_to_e164 ''03001112233'') = Some (john_smith 0)"
    by (simp add: holding_def john_smith_def client_phone)
  have up: "find_ok all_up" "replace_ok all_up"
    by (simp_all add: all_up_def)
  have known: "truthy (client_name (john_smith 0))"
              "client_name (john_smith 0) \<noteq> Some ''Unknown''"
              "status (john_smith 0) = ''pending''"
    by (simp_all add: john_smith_def truthy_def)
  note fin = completion_finalizes [OF held up known(1,2) proceed_facts refl]
  have shape: "phone_number (john_smith 0) = ''+923001112233''"
              "conversation (john_smith 0) = name_exchange"
              "outbox (holding (john_smith 0)) = []"
              "alert_delivered all_up = True" "reply_delivered all_up = True"
    by (simp_all add: john_smith_def holding_def all_up_def)
  from fin have "\<exists>d' payload.
         store (fst (handle_incoming_message all_up (holding (john_smith 0)) ''03001112233''
                       ''sounds good, let's proceed'')) ''+923001112233'' = Some d'
         \<and> status d' = ''finalized''
         \<and> outbox (fst (handle_incoming_message all_up (holding (john_smith 0)) ''03001112233''
                       ''sounds good, let's proceed'')) =
             [(normalize_to_e164 (team_number all_up), payload, True),
              (''+923001112233'',
               ''Great! Your project description has been saved. Our team will reach out to you soon.'',
               True)]
         \<and> sublist
               ([CHR 0xF0, CHR 0x9F, CHR 0x91, CHR 0xA4] @ '' Client: hi\<newline>''
                @ [CHR 0xF0, CHR 0x9F, CHR 0xA4, CHR 0x96]
                @ '' Assistant: Hello! What is your name, sir?\<newline>''
                @ [CHR 0xF0, CHR 0x9F, CHR 0x91, CHR 0xA4] @ '' Client: John Smith\<newline>''
                @ [CHR 0xF0, CHR 0x9F, CHR 0xA4, CHR 0x96]
                @ '' Assistant: Nice to meet you, John Smith! I'm here to help you with your project requirements. What type of app or website are you looking to build?\<newline>''
                @ [CHR 0xF0, CHR 0x9F, CHR 0x91, CHR 0xA4]
                @ '' Client: sounds good, let's proceed\<newline>'')
               payload"
    by (auto simp add: shape client_phone name_exchange_def)
  with held up known proceed_facts show ?thesis
    by blast
qed

text \<open>
  C5: for a phone number with no record, the first inbound message leaves a record with
  \<open>messages_used = 1\<close> and the name \<open>Unknown\<close> and is answered with the request for the
  name; the next inbound message leaves its trimmed text as the name and is answered
  with the personalized question about the project. The store is assumed to respond.
\<close>

theorem name_collection:
  assumes "store st (normalize_to_e164 ph) = None"
      and "find_ok e1" "insert_ok e1" "replace_ok e1"
      and "find_ok e2" "replace_ok e2"
      and "st1 = fst (handle_incoming_message e1 st ph m1)"
      and "st2 = fst (handle_incoming_message e2 st1 ph m2)"
  shows "(\<exists>d1. store st1 (normalize_to_e164 ph) = Some d1
            \<and> messages_used d1 = 1 \<and> client_name d1 = Some ''Unknown'')
         \<and> outbox st1 = outbox st @
              [(normalize_to_e164 ph, ''Hello! What is your name, sir?'', reply_delivered e1)]
         \<and> (\<exists>d2. store st2 (normalize_to_e164 ph) = Some d2
            \<and> messages_used d2 = 2 \<and> client_name d2 = Some (strip m2))
         \<and> outbox st2 = outbox st1 @
              [(normalize_to_e164 ph,
                ''Nice to meet you, '' @ strip m2
                  @ ''! I'm here to help you with your project requirements. What type of app or website are you looking to build?'',
                reply_delivered e2)]"
proof -
  let ?k = "normalize_to_e164 ph"
  let ?d1 = "\<lparr>doc_id = Some ?k, client_name = Some ''Unknown'', phone_number = ?k,
              conversation = [\<lparr>role = Client, message = m1\<rparr>,
                              \<lparr>role = Assistant, message = ''Hello! What is your name, sir?''\<rparr>],
              status = ''pending'', messages_used = 1\<rparr>"
  have s1: "store st1 ?k = Some ?d1"
    and o1: "outbox st1 = outbox st @ [(?k, ''Hello! What is your name, sir?'', reply_delivered e1)]"
    using assms(1-4,7) by (simp_all add: first_message)
  have n: "client_name ?d1 = Some ''Unknown''" by simp
  note second = name_message [OF s1 n assms(5,6), of m2]
  have s2: "\<exists>d2. store st2 ?k = Some d2 \<and> messages_used d2 = 2 \<and> client_name d2 = Some (strip m2)"
    unfolding assms(8) second by simp
  have o2: "outbox st2 = outbox st1 @
              [(?k, ''Nice to meet you, '' @ strip m2
                  @ ''! I'm here to help you with your project requirements. What type of app or website are you looking to build?'',
                reply_delivered e2)]"
    unfolding assms(8) second by simp
  from s1 o1 s2 o2 show ?thesis by simp
qed

theorem name_collection_witness:
  "store initial (normalize_to_e164 ''03001112233'') = None
   \<and> find_ok all_up \<and> insert_ok all_up \<and> replace_ok all_up
   \<and> (\<exists>d1. store (fst (handle_incoming_message all_up initial ''03001112233'' ''hi''))
               ''+923001112233'' = Some d1
          \<and> messages_used d1 = 1 \<and> client_name d1 = Some ''Unknown'')
   \<and> outbox (fst (handle_incoming_message all_up initial ''03001112233'' ''hi'')) =
       [(''+923001112233'', ''Hello! What is your name, sir?'', True)]
   \<and> (\<exists>d2. store (fst (handle_incoming_message all_up
                          (fst (handle_incoming_message all_up initial ''03001112233'' ''hi''))
                          ''03001112233'' '' John Smith ''))
               ''+923001112233'' = Some d2
          \<and> messages_used d2 = 2 \<and> client_name d2 = Some ''John Smith'')"
proof -
  have fresh: "store initial (normalize_to_e164 ''03001112233'') = None"
    by (simp add: initial_def)
  have up: "find_ok all_up" "insert_ok all_up" "replace_ok all_up"
    by (simp_all add: all_up_def)
  have trimmed: "strip '' John Smith '' = ''John Smith''"
    by (simp add: strip_def isspace_def code_def)
  note both = name_collection [OF fresh up up(1,3) refl refl, of "''hi''" "'' John Smith ''"]
  have shape: "outbox initial = []" "reply_delivered all_up = True"
    by (simp_all add: initial_def all_up_def)
  from both have "(\<exists>d1. store (fst (handle_incoming_message all_up initial ''03001112233'' ''hi''))
               ''+923001112233'' = Some d1
          \<and> messages_used d1 = 1 \<and> client_name d1 = Some ''Unknown'')
   \<and> outbox (fst (handle_incoming_message all_up initial ''03001112233'' ''hi'')) =
       [(''+923001112233'', ''Hello! What is your name, sir?'', True)]
   \<and> (\<exists>d2. store (fst (handle_incoming_message all_up
                          (fst (handle_incoming_message all_up initial ''03001112233'' ''hi''))
                          ''03001112233'' '' John Smith ''))
               ''+923001112233'' = Some d2
          \<and> messages_used d2 = 2 \<and> client_name d2 = Some ''John Smith'')"
    by (simp add: client_phone trimmed shape)
  with fresh up show ?thesis
    by blast
qed

text \<open>
  C6: \<open>classify_message\<close> is a function of its argument alone and yields, for every text,
  one of five fixed results: the groups are tried in the order pricing, support,
  general, greeting, with the confidences 0.9, 0.8, 0.7, 0.9 and their fixed replies,
  and \<open>other\<close> with confidence 0.5 when none matches. \<open>how much does support cost\<close>
  matches the support patterns too and is classified as pricing.
\<close>

theorem classify_message_ordered:
  "(ctype (classify_message m) = ''pricing''
      \<longleftrightarrow> matches_patterns (strip (lower m)) pricing_patterns)
   \<and> (ctype (classify_message m) = ''support''
      \<longleftrightarrow> \<not> matches_patterns (strip (lower m)) pricing_patterns
          \<and> matches_patterns (strip (lower m)) support_patterns)
   \<and> (ctype (classify_message m) = ''general''
      \<longleftrightarrow> \<not> matches_patterns (strip (lower m)) pricing_patterns
          \<and> \<not> matches_patterns (strip (lower m)) support_patterns
          \<and> matches_patterns (strip (lower m)) general_patterns)
   \<and> (ctype (classify_message m) = ''greeting''
      \<longleftrightarrow> \<not> matches_patterns (strip (lower m)) pricing_patterns
          \<and> \<not> matches_patterns (strip (lower m)) support_patterns
          \<and> \<not> matches_patterns (strip (lower m)) general_patterns
          \<and> matches_patterns (strip (lower m)) greeting_words)
   \<and> (ctype (classify_message m) = ''other''
      \<longleftrightarrow> \<not> matches_patterns (strip (lower m)) pricing_patterns
          \<and> \<not> matches_patterns (strip (lower m)) support_patterns
          \<and> \<not> matches_patterns (strip (lower m)) general_patterns
          \<and> \<not> matches_patterns (strip (lower m)) greeting_words)
   \<and> classify_message m \<in>
       {\<lparr>ctype = ''pricing'',
          response = ''Our pricing starts from $99. Would you like the full details?'',
          confidence = 0.9\<rparr>,
        \<lparr>ctype = ''support'',
          response = ''I'm here to help. Could you share more details about the issue?'',
          confidence = 0.8\<rparr>,
        \<lparr>ctype = ''general'',
          response = ''Thanks for your message! Our team will respond shortly.'',
          confidence = 0.7\<rparr>,
        \<lparr>ctype = ''greeting'',
          response = ''Hello '' @ emoji_wave @ '' How can I help you today?'',
          confidence = 0.9\<rparr>,
        \<lparr>ctype = ''other'',
          response = ''Thanks for your message! Our team will respond shortly.'',
          confidence = 0.5\<rparr>}
   \<and> ctype (classify_message ''how much does support cost'') = ''pricing''
   \<and> matches_patterns (strip (lower ''how much does support cost'')) support_patterns"
proof -
  have example: "ctype (classify_message ''how much does support cost'') = ''pricing''"
    by (simp add: classify_cases support_cost_both)
  show ?thesis
    using example support_cost_both(2) by (simp add: classify_cases)
qed

theorem classify_message_ordered_witness:
  "\<not> matches_patterns (strip (lower ''I need help'')) pricing_patterns
   \<and> matches_patterns (strip (lower ''I need help'')) support_patterns
   \<and> ctype (classify_message ''I need help'') = ''support''
   \<and> confidence (classify_message ''I need help'') = 0.8"
proof -
  have found: "\<not> matches_patterns (strip (lower ''I need help'')) pricing_patterns"
              "matches_patterns (strip (lower ''I need help'')) support_patterns"
    by (simp_all add: help_lower help_classified)
  from classify_message_ordered [of "''I need help''"] found
  have kind: "ctype (classify_message ''I need help'') = ''support''"
    by blast
  from classify_message_ordered [of "''I need help''"]
  have "classify_message ''I need help'' \<in>
       {\<lparr>ctype = ''pricing'',
          response = ''Our pricing starts from $99. Would you like the full details?'',
          confidence = 0.9\<rparr>,
        \<lparr>ctype = ''support'',
          response = ''I'm here to help. Could you share more details about the issue?'',
          confidence = 0.8\<rparr>,
        \<lparr>ctype = ''general'',
          response = ''Thanks for your message! Our team will respond shortly.'',
          confidence = 0.7\<rparr>,
        \<lparr>ctype = ''greeting'',
          response = ''Hello '' @ emoji_wave @ '' How can I help you today?'',
          confidence = 0.9\<rparr>,
        \<lparr>ctype = ''other'',
          response = ''Thanks for your message! Our team will respond shortly.'',
          confidence = 0.5\<rparr>}"
    by blast
  with kind have "confidence (classify_message ''I need help'') = 0.8"
    by auto
  with found kind show ?thesis
    by blast
qed

text \<open>
  C7, as stated: the result of \<open>normalize_to_e164\<close> is the result of the four rules on
  the digits of the input. It fails at the empty input, which the guard returns
  unchanged where rule 4 gives \<open>+\<close>.
\<close>

theorem normalize_rules_counterexample:
  "normalize_to_e164 '''' \<noteq> e164_rules ''''"
  by (simp add: normalize_to_e164_def e164_rules_def startswith_def)

text \<open>
  C7, amended: the empty input is returned unchanged, and on every other input
  \<open>normalize_to_e164\<close> applies the four rules in order on the digits of the input:
  digits starting with 92 of length at least 12 get \<open>+\<close>; else a leading 0 with length 11
  is dropped and \<open>+92\<close> prefixed; else length 10 gets \<open>+92\<close>; else the digits get \<open>+\<close>.
\<close>

theorem normalize_applies_rules:
  "normalize_to_e164 '''' = ''''
   \<and> (s \<noteq> '''' \<longrightarrow> normalize_to_e164 s = e164_rules s)
   \<and> e164_rules s =
     (if startswith (filter isdigit s) ''92'' \<and> length (filter isdigit s) \<ge> 12
        then ''+'' @ filter isdigit s
      else if startswith (filter isdigit s) ''0'' \<and> length (filter isdigit s) = 11
        then ''+92'' @ drop 1 (filter isdigit s)
      else if length (filter isdigit s) = 10
        then ''+92'' @ filter isdigit s
      else ''+'' @ filter isdigit s)"
  by (simp add: normalize_to_e164_def e164_rules_def Let_def)

theorem normalize_applies_rules_witness:
  "''0300-1112233'' \<noteq> ''''
   \<and> normalize_to_e164 ''0300-1112233'' = e164_rules ''0300-1112233''
   \<and> e164_rules ''0300-1112233'' = ''+923001112233''"
proof -
  have ne: "''0300-1112233'' \<noteq> ''''"
    by simp
  have same: "normalize_to_e164 ''0300-1112233'' = e164_rules ''0300-1112233''"
    using normalize_applies_rules [of "''0300-1112233''"] ne by blast
  have val: "e164_rules ''0300-1112233'' = ''+923001112233''"
    by (simp add: e164_rules_def startswith_def isdigit_def code_def)
  show ?thesis
    using ne same val by blast
qed

text \<open>
  C8: in every collection that the engine reaches from the empty one, the status of each
  record is \<open>pending\<close> or \<open>finalized\<close>; a record is created with the status
  \<open>pending\<close>; and no call of \<open>handle_incoming_message\<close>, whatever its arguments and
  the behaviour of its collaborators, leaves a record that was \<open>finalized\<close> with
  another status.
\<close>

theorem status_monotonic:
  assumes "reachable st"
  shows "(\<forall>k d. store st k = Some d \<longrightarrow> status d = ''pending'' \<or> status d = ''finalized'')
         \<and> (\<forall>e ph m k d. store st k = Some d \<and> status d = ''finalized'' \<longrightarrow>
               (\<exists>d'. store (fst (handle_incoming_message e st ph m)) k = Some d'
                     \<and> status d' = ''finalized''))
         \<and> (\<forall>e ph st1 c. store st (normalize_to_e164 ph) = None
                \<and> get_or_create_conversation e st ph = (st1, Inr c) \<longrightarrow>
               status c = ''pending''
               \<and> (\<exists>d. store st1 (normalize_to_e164 ph) = Some d \<and> status d = ''pending''))"
proof -
  have inv: "phone_number d = k \<and> (status d = ''pending'' \<or> status d = ''finalized'')"
    if "store st k = Some d" for k d
    using reachable_keyed [OF assms] that by blast
  have mono: "\<exists>d'. store (fst (handle_incoming_message e st ph m)) k = Some d'
                     \<and> status d' = ''finalized''"
    if "store st k = Some d" "status d = ''finalized''" for e ph m k d
    using handle_store_effect [of e st ph m] that inv
    by (auto split: if_splits)
  have created: "status c = ''pending''
               \<and> (\<exists>d. store st1 (normalize_to_e164 ph) = Some d \<and> status d = ''pending'')"
    if "store st (normalize_to_e164 ph) = None"
       "get_or_create_conversation e st ph = (st1, Inr c)" for e ph st1 c
    using that by (auto simp add: get_or_create_cases split: if_splits)
  from inv mono created show ?thesis by blast
qed

theorem status_monotonic_witness:
  "reachable (fst (handle_incoming_message all_up initial ''03001112233'' ''hi''))
   \<and> (\<exists>d. store (fst (handle_incoming_message all_up initial ''03001112233'' ''hi''))
              ''+923001112233'' = Some d
          \<and> status d = ''pending'')"
proof -
  let ?st = "fst (handle_incoming_message all_up initial ''03001112233'' ''hi'')"
  have r: "reachable ?st"
    by (rule reachable.step [OF reachable.start])
  have fresh: "store initial (normalize_to_e164 ''03001112233'') = None"
    by (simp add: initial_def)
  have up: "find_ok all_up" "insert_ok all_up" "replace_ok all_up"
    by (simp_all add: all_up_def)
  have stored: "\<exists>d. store ?st ''+923001112233'' = Some d \<and> client_name d = Some ''Unknown''"
    unfolding first_message [OF fresh up] by (simp add: client_phone)
  then obtain d where d: "store ?st ''+923001112233'' = Some d" by blast
  from status_monotonic [OF r] d
  have "status d = ''pending'' \<or> status d = ''finalized''"
    by blast
  moreover have "status d \<noteq> ''finalized''"
    using d unfolding first_message [OF fresh up] by (auto simp add: client_phone)
  ultimately show ?thesis
    using r d by blast
qed

text \<open>
  C9: a record whose phone number is canonical, saved with \<open>save_conversation\<close> and
  fetched by that number with \<open>get_or_create_conversation\<close>, comes back with the same
  turns in the same order, the same counter, the same status and the same name. The
  store is assumed to respond; by \<open>fetched_phone_canonical\<close> the phone number of every
  record that the engine fetches or creates is canonical.
\<close>

theorem save_then_fetch:
  assumes "replace_ok e" "find_ok e'"
      and "normalize_to_e164 (phone_number c) = phone_number c"
      and "st' = fst (save_conversation e st c)"
  shows "snd (save_conversation e st c) = Inr ()
         \<and> (\<exists>c'. get_or_create_conversation e' st' (phone_number c) = (st', Inr c')
                \<and> conversation c' = conversation c
                \<and> messages_used c' = messages_used c
                \<and> status c' = status c
                \<and> client_name c' = client_name c
                \<and> phone_number c' = phone_number c)"
  using assms by (simp add: save_conversation_def get_or_create_cases)

theorem save_then_fetch_witness:
  "replace_ok all_up \<and> find_ok all_up
   \<and> normalize_to_e164 (phone_number (john_smith 1)) = phone_number (john_smith 1)
   \<and> snd (save_conversation all_up initial (john_smith 1)) = Inr ()
   \<and> (\<exists>c'. get_or_create_conversation all_up (fst (save_conversation all_up initial (john_smith 1)))
               ''+923001112233''
             = (fst (save_conversation all_up initial (john_smith 1)), Inr c')
          \<and> conversation c' = name_exchange @ chat_round
          \<and> messages_used c' = 3
          \<and> status c' = ''pending''
          \<and> client_name c' = Some ''John Smith'')"
proof -
  have up: "replace_ok all_up" "find_ok all_up"
    by (simp_all add: all_up_def)
  have canon: "normalize_to_e164 (phone_number (john_smith 1)) = phone_number (john_smith 1)"
    by (simp add: john_smith_def normalize_to_e164_def startswith_def isdigit_def code_def)
  note fetched = save_then_fetch [OF up canon refl, of initial]
  have shape: "phone_number (john_smith 1) = ''+923001112233''"
              "conversation (john_smith 1) = name_exchange @ chat_round"
              "messages_used (john_smith 1) = 3"
              "status (john_smith 1) = ''pending''"
              "client_name (john_smith 1) = Some ''John Smith''"
    by (simp_all add: john_smith_def)
  from fetched have "snd (save_conversation all_up initial (john_smith 1)) = Inr ()
   \<and> (\<exists>c'. get_or_create_conversation all_up (fst (save_conversation all_up initial (john_smith 1)))
               ''+923001112233''
             = (fst (save_conversation all_up initial (john_smith 1)), Inr c')
          \<and> conversation c' = name_exchange @ chat_round
          \<and> messages_used c' = 3
          \<and> status c' = ''pending''
          \<and> client_name c' = Some ''John Smith'')"
    unfolding shape by blast
  with up canon show ?thesis
    by blast
qed

text \<open>
  C10: \<open>normalize_to_e164\<close> is idempotent on every input.
\<close>

theorem normalize_idempotent:
  "normalize_to_e164 (normalize_to_e164 s) = normalize_to_e164 s"
  by (rule normalize_fixed_point)

end

